theory Spec2Isabelle
  imports Complex_Main "HOL-Library.AList"
begin

chapter \<open>The memory blockchain: ledger, Proof-of-Authority scheduler and contracts\<close>

text \<open>
  A shallow embedding of \<^verbatim>\<open>blockchain/core.py\<close>, \<^verbatim>\<open>blockchain/consensus.py\<close> and
  \<^verbatim>\<open>blockchain/contracts.py\<close>. Python objects are records, mutation is state passing,
  an exception is the \<open>Inl\<close> side of a sum, and every clock reading is an argument of the
  operation that reads it.

  Two library functions are not part of the repository. The digest
  \<^verbatim>\<open>hashlib.sha256(s.encode()).hexdigest()\<close> is the parameter \<open>H\<close> of every definition that
  hashes: all theorems hold for any \<open>H\<close>. \<^verbatim>\<open>json.dumps(v, sort_keys=True)\<close> is modelled
  below on values without floats, with strings of 8-bit code points. The numbers of the
  resource contract and of the clock are Python's: integers of any size and binary64
  floats, modelled below.
\<close>

section \<open>Python values and \<^verbatim>\<open>json.dumps\<close>\<close>

datatype error = ValueError string | IndexError | KeyError string

datatype json =
    JNull
  | JBool bool
  | JInt int
  | JStr string
  | JList "json list"
  | JDict "(string \<times> json) list"

text \<open>Python compares \<^verbatim>\<open>str\<close> keys by code point, lexicographically.\<close>

fun str_le :: "string \<Rightarrow> string \<Rightarrow> bool" where
  "str_le [] ys = True"
| "str_le (x # xs) [] = False"
| "str_le (x # xs) (y # ys) =
     (if (of_char x :: nat) < of_char y then True
      else if (of_char y :: nat) < of_char x then False
      else str_le xs ys)"

fun insert_item :: "string \<times> 'a \<Rightarrow> (string \<times> 'a) list \<Rightarrow> (string \<times> 'a) list" where
  "insert_item kv [] = [kv]"
| "insert_item kv (x # xs) =
     (if str_le (fst kv) (fst x) then kv # x # xs else x # insert_item kv xs)"

definition sort_items :: "(string \<times> 'a) list \<Rightarrow> (string \<times> 'a) list" where
  "sort_items kvs = foldr insert_item kvs []"

text \<open>The order of two items of a dictionary: that of their keys.\<close>

definition key_le :: "string \<times> 'a \<Rightarrow> string \<times> 'a \<Rightarrow> bool" where
  "key_le a b = str_le (fst a) (fst b)"

text \<open>The decimal numeral of an integer, as \<^verbatim>\<open>str(n)\<close> and an f-string print it.\<close>

definition digit_char :: "nat \<Rightarrow> char" where
  "digit_char d = ''0123456789abcdef'' ! d"

function str_nat :: "nat \<Rightarrow> string" where
  "str_nat n =
     (if n < 10 then [digit_char n]
      else str_nat (n div 10) @ [digit_char (n mod 10)])"
  by pat_completeness auto
termination
  by (relation "measure id") auto

declare str_nat.simps [simp del]

definition str_int :: "int \<Rightarrow> string" where
  "str_int i = (if i < 0 then CHR ''-'' # str_nat (nat (- i)) else str_nat (nat i))"

text \<open>
  String escaping with \<^verbatim>\<open>ensure_ascii=True\<close> (the default): the short escapes, and
  \<^verbatim>\<open>\u00xx\<close> for every other code point outside the printable ASCII range.
\<close>

definition escape_char :: "char \<Rightarrow> string" where
  "escape_char c =
     (if c = CHR 0x22 then [CHR 0x5C, CHR 0x22]
      else if c = CHR 0x5C then [CHR 0x5C, CHR 0x5C]
      else if c = CHR 0x0A then [CHR 0x5C, CHR ''n'']
      else if c = CHR 0x0D then [CHR 0x5C, CHR ''r'']
      else if c = CHR 0x09 then [CHR 0x5C, CHR ''t'']
      else if c = CHR 0x08 then [CHR 0x5C, CHR ''b'']
      else if c = CHR 0x0C then [CHR 0x5C, CHR ''f'']
      else if (of_char c :: nat) < 32 \<or> 126 < (of_char c :: nat)
        then [CHR 0x5C, CHR ''u'', CHR ''0'', CHR ''0'',
              digit_char (of_char c div 16), digit_char (of_char c mod 16)]
      else [c])"

definition encode_str :: "string \<Rightarrow> string" where
  "encode_str s = CHR 0x22 # concat (map escape_char s) @ [CHR 0x22]"

fun join :: "string \<Rightarrow> string list \<Rightarrow> string" where
  "join sep [] = []"
| "join sep [x] = x"
| "join sep (x # y # ys) = x @ sep @ join sep (y # ys)"

text \<open>
  \<^verbatim>\<open>json.dumps(v, sort_keys=True)\<close> with the default separators. The items of a dictionary
  are sorted by key; the values are serialised first here, which gives the same text.
\<close>

fun dumps :: "json \<Rightarrow> string" where
  "dumps JNull = ''null''"
| "dumps (JBool b) = (if b then ''true'' else ''false'')"
| "dumps (JInt i) = str_int i"
| "dumps (JStr s) = encode_str s"
| "dumps (JList xs) = ''['' @ join '', '' (map dumps xs) @ '']''"
| "dumps (JDict kvs) =
     ''{'' @ join '', ''
        (map (\<lambda>(k, s). encode_str k @ '': '' @ s)
          (sort_items (map (\<lambda>(k, v). (k, dumps v)) kvs))) @ ''}''"

section \<open>Python numbers\<close>

text \<open>
  A Python number is an \<^verbatim>\<open>int\<close> or a \<^verbatim>\<open>float\<close>. A float is a binary64 value, here the
  pair of an integer mantissa and an exponent of two, \<open>m * 2 ^ e\<close>; every operation
  computes the exact result and rounds it to 53 significant bits, to nearest with ties to
  even, as IEEE 754 arithmetic does. Infinities, NaN, the sign of zero, overflow and the
  subnormal range are outside the model.
\<close>

text \<open>\<^verbatim>\<open>int.bit_length\<close>.\<close>

function bitlen_nat :: "nat \<Rightarrow> nat" where
  "bitlen_nat n = (if n = 0 then 0 else Suc (bitlen_nat (n div 2)))"
  by pat_completeness auto
termination
  by (relation "measure id") auto

declare bitlen_nat.simps [simp del]

definition pow2 :: "int \<Rightarrow> rat" where
  "pow2 k = (if 0 \<le> k then 2 ^ nat k else 1 / 2 ^ nat (- k))"

text \<open>
  Rounding of \<open>m * 2 ^ e\<close> to 53 bits; \<open>sticky\<close> says that the exact value lies strictly
  above \<open>\<bar>m\<bar> * 2 ^ e\<close> in magnitude (a division that left a remainder).
\<close>

definition round_to_53 :: "int \<Rightarrow> int \<Rightarrow> bool \<Rightarrow> int \<times> int" where
  "round_to_53 m e sticky =
     (let b = bitlen_nat (nat \<bar>m\<bar>)
      in if b \<le> 53 then (m, e)
         else
           (let s = b - 53;
                q = \<bar>m\<bar> div 2 ^ s;
                low = \<bar>m\<bar> mod 2 ^ s;
                half = 2 ^ (s - 1);
                q' = (if low > half \<or> (low = half \<and> (sticky \<or> odd q)) then q + 1 else q)
            in (sgn m * q', e + int s)))"

datatype num = PyInt int | PyFloat int int

text \<open>The value of a number; Python compares numbers by value, exactly.\<close>

fun val :: "num \<Rightarrow> rat" where
  "val (PyInt i) = of_int i"
| "val (PyFloat m e) = of_int m * pow2 e"

definition py_gt :: "num \<Rightarrow> num \<Rightarrow> bool" where
  "py_gt a b = (val b < val a)"

fun is_py_int :: "num \<Rightarrow> bool" where
  "is_py_int (PyInt i) = True"
| "is_py_int (PyFloat m e) = False"

text \<open>In mixed arithmetic the integer operand is converted to a float first.\<close>

fun to_float :: "num \<Rightarrow> int \<times> int" where
  "to_float (PyInt i) = round_to_53 i 0 False"
| "to_float (PyFloat m e) = (m, e)"

definition float_add :: "int \<times> int \<Rightarrow> int \<times> int \<Rightarrow> int \<times> int" where
  "float_add x y =
     (let e = min (snd x) (snd y)
      in round_to_53 (fst x * 2 ^ nat (snd x - e) + fst y * 2 ^ nat (snd y - e)) e False)"

definition float_sub :: "int \<times> int \<Rightarrow> int \<times> int \<Rightarrow> int \<times> int" where
  "float_sub x y =
     (let e = min (snd x) (snd y)
      in round_to_53 (fst x * 2 ^ nat (snd x - e) - fst y * 2 ^ nat (snd y - e)) e False)"

definition float_mul :: "int \<times> int \<Rightarrow> int \<times> int \<Rightarrow> int \<times> int" where
  "float_mul x y = round_to_53 (fst x * fst y) (snd x + snd y) False"

fun py_add :: "num \<Rightarrow> num \<Rightarrow> num" where
  "py_add (PyInt a) (PyInt b) = PyInt (a + b)"
| "py_add x y = (case float_add (to_float x) (to_float y) of (m, e) \<Rightarrow> PyFloat m e)"

fun py_sub :: "num \<Rightarrow> num \<Rightarrow> num" where
  "py_sub (PyInt a) (PyInt b) = PyInt (a - b)"
| "py_sub x y = (case float_sub (to_float x) (to_float y) of (m, e) \<Rightarrow> PyFloat m e)"

fun py_mul :: "num \<Rightarrow> num \<Rightarrow> num" where
  "py_mul (PyInt a) (PyInt b) = PyInt (a * b)"
| "py_mul x y = (case float_mul (to_float x) (to_float y) of (m, e) \<Rightarrow> PyFloat m e)"

text \<open>
  True division of two integers, \<^verbatim>\<open>p / q\<close>: the correctly rounded quotient, a float also
  when the division is exact. \<open>None\<close> is \<^verbatim>\<open>ZeroDivisionError\<close>.
\<close>

definition true_div :: "int \<Rightarrow> int \<Rightarrow> num option" where
  "true_div p q =
     (if q = 0 then None
      else
        (let k = nat (55 + int (bitlen_nat (nat \<bar>q\<bar>)) - int (bitlen_nat (nat \<bar>p\<bar>)));
             n = (\<bar>p\<bar> * 2 ^ k) div \<bar>q\<bar>;
             r = (\<bar>p\<bar> * 2 ^ k) mod \<bar>q\<bar>
         in case round_to_53 (sgn p * sgn q * n) (- int k) (r \<noteq> 0) of
              (m, e) \<Rightarrow> Some (PyFloat m e)))"

section \<open>Transactions (\<^verbatim>\<open>core.py\<close>, class Transaction)\<close>

record Transaction =
  operation :: string
  data :: "(string \<times> json) list"
  timestamp_micros :: int
  instance_id :: string
  tx_id :: string
  data_hash :: string
  signature :: "string option"

definition calculate_data_hash :: "(string \<Rightarrow> string) \<Rightarrow> Transaction \<Rightarrow> string" where
  "calculate_data_hash H tx =
     H (dumps (JDict
       [(''operation'', JStr (operation tx)),
        (''data'', JDict (data tx)),
        (''timestamp_micros'', JInt (timestamp_micros tx)),
        (''instance_id'', JStr (instance_id tx))]))"

text \<open>The constructor with \<^verbatim>\<open>__post_init__\<close>: the two generated fields are computed.\<close>

definition Transaction_init ::
  "(string \<Rightarrow> string) \<Rightarrow> string \<Rightarrow> (string \<times> json) list \<Rightarrow> int \<Rightarrow> string \<Rightarrow> Transaction" where
  "Transaction_init H op d ts iid =
     (let operation_data = op @ dumps (JDict d);
          operation_hash = take 8 (H operation_data);
          tx0 = \<lparr>operation = op, data = d, timestamp_micros = ts, instance_id = iid,
                 tx_id = str_int ts @ ''-'' @ iid @ ''-'' @ operation_hash,
                 data_hash = [], signature = None\<rparr>
      in tx0\<lparr>data_hash := calculate_data_hash H tx0\<rparr>)"

definition sign :: "(string \<Rightarrow> string) \<Rightarrow> Transaction \<Rightarrow> string \<Rightarrow> Transaction" where
  "sign H tx private_key = tx\<lparr>signature := Some (H (data_hash tx @ private_key))\<rparr>"

section \<open>Blocks (\<^verbatim>\<open>core.py\<close>, class Block)\<close>

record Block =
  index :: int
  block_timestamp_micros :: int
  previous_hash :: string
  validator :: string
  transactions :: "Transaction list"
  merkle_root :: string
  block_hash :: string
  nonce :: int

text \<open>
  One level of the Merkle tree: the \<^verbatim>\<open>for i in range(0, len(hashes), 2)\<close> loop, reading
  \<^verbatim>\<open>hashes[i]\<close> and \<^verbatim>\<open>hashes[i + 1]\<close>. It runs on a list of even length only.
\<close>

definition pair_level :: "(string \<Rightarrow> string) \<Rightarrow> string list \<Rightarrow> string list" where
  "pair_level H hashes =
     map (\<lambda>k. H (hashes ! (2 * k) @ hashes ! (2 * k + 1))) [0..<(length hashes + 1) div 2]"

definition dup_last :: "string list \<Rightarrow> string list" where
  "dup_last hashes = (if length hashes mod 2 \<noteq> 0 then hashes @ [last hashes] else hashes)"

text \<open>The \<^verbatim>\<open>while len(hashes) > 1\<close> loop.\<close>

function merkle_loop :: "(string \<Rightarrow> string) \<Rightarrow> string list \<Rightarrow> string list" where
  "merkle_loop H hashes =
     (if length hashes > 1 then merkle_loop H (pair_level H (dup_last hashes)) else hashes)"
  by pat_completeness auto
termination
proof (relation "measure (\<lambda>(H, hashes). length hashes)")
  show "wf (measure (\<lambda>(H, hashes). length hashes))" by simp
next
  fix H :: "string \<Rightarrow> string" and hashes :: "string list"
  assume "1 < length hashes"
  then have "(length (dup_last hashes) + 1) div 2 < length hashes"
    unfolding dup_last_def by (cases "length hashes mod 2 = 0") (simp_all, arith+)
  then show "((H, pair_level H (dup_last hashes)), (H, hashes))
      \<in> measure (\<lambda>(H, hashes). length hashes)"
    by (simp add: pair_level_def)
qed

declare merkle_loop.simps [simp del]

definition calculate_merkle_root :: "(string \<Rightarrow> string) \<Rightarrow> Block \<Rightarrow> string" where
  "calculate_merkle_root H b =
     (if transactions b = [] then H ''empty''
      else hd (merkle_loop H (map data_hash (transactions b))))"

definition calculate_hash :: "(string \<Rightarrow> string) \<Rightarrow> Block \<Rightarrow> string" where
  "calculate_hash H b =
     H (dumps (JDict
       [(''index'', JInt (index b)),
        (''timestamp_micros'', JInt (block_timestamp_micros b)),
        (''previous_hash'', JStr (previous_hash b)),
        (''validator'', JStr (validator b)),
        (''merkle_root'', JStr (merkle_root b)),
        (''nonce'', JInt (nonce b))]))"

text \<open>The constructor with \<^verbatim>\<open>__post_init__\<close>; \<^verbatim>\<open>nonce\<close> takes its default 0.\<close>

definition Block_init ::
  "(string \<Rightarrow> string) \<Rightarrow> int \<Rightarrow> int \<Rightarrow> string \<Rightarrow> string \<Rightarrow> Transaction list \<Rightarrow> Block" where
  "Block_init H i ts prev v txs =
     (let b0 = \<lparr>index = i, block_timestamp_micros = ts, previous_hash = prev, validator = v,
                transactions = txs, merkle_root = [], block_hash = [], nonce = 0\<rparr>;
          b1 = b0\<lparr>merkle_root := calculate_merkle_root H b0\<rparr>
      in b1\<lparr>block_hash := calculate_hash H b1\<rparr>)"

text \<open>
  The Merkle root as the specification words it: hash the list pairwise, the last element
  with itself when it has no partner, until one hash remains.
\<close>

fun pair_up :: "(string \<Rightarrow> string) \<Rightarrow> string list \<Rightarrow> string list" where
  "pair_up H [] = []"
| "pair_up H [a] = [H (a @ a)]"
| "pair_up H (a # b # rest) = H (a @ b) # pair_up H rest"

function merkle_fold :: "(string \<Rightarrow> string) \<Rightarrow> string list \<Rightarrow> string" where
  "merkle_fold H [] = H ''empty''"
| "merkle_fold H [h] = h"
| "merkle_fold H (a # b # rest) = merkle_fold H (pair_up H (a # b # rest))"
  by pat_completeness auto
termination
proof (relation "measure (\<lambda>(H, hashes). length hashes)")
  show "wf (measure (\<lambda>(H, hashes). length hashes))" by simp
next
  fix H :: "string \<Rightarrow> string" and a b :: string and rest :: "string list"
  have "length (pair_up H xs) \<le> length xs" for xs
    by (induction H xs rule: pair_up.induct) auto
  then have "length (pair_up H rest) \<le> length rest" .
  then show "((H, pair_up H (a # b # rest)), (H, a # b # rest))
      \<in> measure (\<lambda>(H, hashes). length hashes)"
    by simp
qed

section \<open>The ledger (\<^verbatim>\<open>core.py\<close>, class Blockchain)\<close>

record Blockchain =
  bc_instance_id :: string
  time_precision_url :: "string option"
  chain :: "Block list"
  pending_transactions :: "Transaction list"
  transaction_pool :: "string \<rightharpoonup> Transaction"

text \<open>
  \<^verbatim>\<open>_get_timestamp_micros\<close> reads the time service or the local clock; its result is the
  argument \<open>now\<close> of each operation below.
\<close>

definition create_genesis_block ::
  "(string \<Rightarrow> string) \<Rightarrow> Blockchain \<Rightarrow> string \<Rightarrow> int \<Rightarrow> Blockchain" where
  "create_genesis_block H bc v now =
     (let genesis_tx = Transaction_init H ''genesis''
            [(''message'', JStr ''MAGI Memory Blockchain Genesis'')] now v;
          genesis_block = Block_init H 0 now (replicate 64 CHR ''0'') v [genesis_tx]
      in bc\<lparr>chain := chain bc @ [genesis_block]\<rparr>)"

definition Blockchain_init ::
  "(string \<Rightarrow> string) \<Rightarrow> string \<Rightarrow> string option \<Rightarrow> string \<Rightarrow> int \<Rightarrow> Blockchain" where
  "Blockchain_init H iid url genesis_validator now =
     create_genesis_block H
       \<lparr>bc_instance_id = iid, time_precision_url = url, chain = [],
        pending_transactions = [], transaction_pool = Map.empty\<rparr>
       genesis_validator now"

text \<open>\<^verbatim>\<open>if sign_key:\<close> holds for a key that is given and not empty.\<close>

definition create_transaction ::
  "(string \<Rightarrow> string) \<Rightarrow> Blockchain \<Rightarrow> string \<Rightarrow> (string \<times> json) list \<Rightarrow> string option \<Rightarrow> int
     \<Rightarrow> Transaction \<times> Blockchain" where
  "create_transaction H bc op d sign_key now =
     (let tx0 = Transaction_init H op d now (bc_instance_id bc);
          tx = (case sign_key of
                  None \<Rightarrow> tx0
                | Some k \<Rightarrow> if k = [] then tx0 else sign H tx0 k)
      in (tx, bc\<lparr>transaction_pool := (transaction_pool bc)(tx_id tx \<mapsto> tx),
                pending_transactions := pending_transactions bc @ [tx]\<rparr>))"

text \<open>
  \<^verbatim>\<open>create_block\<close>: the pending list is cut before anything can raise, so the ledger is
  returned on the error side too. \<^verbatim>\<open>self.chain[-1]\<close> raises on an empty chain.
\<close>

definition create_block ::
  "(string \<Rightarrow> string) \<Rightarrow> Blockchain \<Rightarrow> Transaction list option \<Rightarrow> string option \<Rightarrow> int
     \<Rightarrow> (error + Block) \<times> Blockchain" where
  "create_block H bc txs_arg validator_arg now =
     (let (txs, bc1) =
            (case txs_arg of
               None \<Rightarrow> (take 10 (pending_transactions bc),
                         bc\<lparr>pending_transactions := drop 10 (pending_transactions bc)\<rparr>)
             | Some ts \<Rightarrow> (ts, bc))
      in if txs = [] then (Inl (ValueError ''No transactions to include in block''), bc1)
         else if chain bc1 = [] then (Inl IndexError, bc1)
         else
           (Inr (Block_init H (int (length (chain bc1))) now
                   (block_hash (last (chain bc1)))
                   (case validator_arg of
                      None \<Rightarrow> bc_instance_id bc1
                    | Some v \<Rightarrow> if v = [] then bc_instance_id bc1 else v)
                   txs),
            bc1))"

definition validate_transaction :: "(string \<Rightarrow> string) \<Rightarrow> Transaction \<Rightarrow> bool" where
  "validate_transaction H tx = (data_hash tx = calculate_data_hash H tx)"

definition validate_block :: "(string \<Rightarrow> string) \<Rightarrow> Blockchain \<Rightarrow> Block \<Rightarrow> error + bool" where
  "validate_block H bc block =
     (if index block = 0 then Inr True
      else if chain bc = [] then Inl IndexError
      else
        (let previous_block = last (chain bc)
         in if index block \<noteq> index previous_block + 1 then Inr False
            else if previous_hash block \<noteq> block_hash previous_block then Inr False
            else if block_hash block \<noteq> calculate_hash H block then Inr False
            else if merkle_root block \<noteq> calculate_merkle_root H block then Inr False
            else Inr (list_all (validate_transaction H) (transactions block))))"

text \<open>
  Python's \<^verbatim>\<open>==\<close> on the values of a transaction's \<^verbatim>\<open>data\<close>: dictionaries are equal
  when they have the same keys with equal values, in any order, and \<^verbatim>\<open>True == 1\<close>.
  \<open>tx_eq\<close> is the equality the dataclass generates, field by field.
\<close>

fun py_eq :: "json \<Rightarrow> json \<Rightarrow> bool" where
  "py_eq JNull JNull = True"
| "py_eq (JBool a) (JBool b) = (a = b)"
| "py_eq (JBool a) (JInt i) = (i = (if a then 1 else 0))"
| "py_eq (JInt i) (JBool a) = (i = (if a then 1 else 0))"
| "py_eq (JInt i) (JInt j) = (i = j)"
| "py_eq (JStr s) (JStr t) = (s = t)"
| "py_eq (JList xs) (JList ys) = list_all2 py_eq xs ys"
| "py_eq (JDict xs) (JDict ys) =
     (length xs = length ys \<and>
      list_all (\<lambda>(k, v). case map_of ys k of None \<Rightarrow> False | Some v' \<Rightarrow> py_eq v v') xs)"
| "py_eq _ _ = False"

definition tx_eq :: "Transaction \<Rightarrow> Transaction \<Rightarrow> bool" where
  "tx_eq a b =
     (operation a = operation b \<and> py_eq (JDict (data a)) (JDict (data b)) \<and>
      timestamp_micros a = timestamp_micros b \<and> instance_id a = instance_id b \<and>
      tx_id a = tx_id b \<and> data_hash a = data_hash b \<and> signature a = signature b)"

text \<open>\<^verbatim>\<open>list.remove\<close>: the first element that compares equal is taken out, if there is one.\<close>

fun remove_first :: "('a \<Rightarrow> bool) \<Rightarrow> 'a list \<Rightarrow> 'a list" where
  "remove_first P [] = []"
| "remove_first P (x # xs) = (if P x then xs else x # remove_first P xs)"

text \<open>
  The loop of \<^verbatim>\<open>add_block\<close> over the block's transactions: \<^verbatim>\<open>pop(tx_id, None)\<close> on the
  pool, and, under \<^verbatim>\<open>if tx in self.pending_transactions\<close>, removal of the first equal
  element of the pending list. The block's list is a value of its own here: a block built
  on the list object \<^verbatim>\<open>self.pending_transactions\<close> itself, which the loop would then
  change while it runs over it, is outside the model.
\<close>

definition remove_from_pool :: "Blockchain \<Rightarrow> Transaction \<Rightarrow> Blockchain" where
  "remove_from_pool bc tx =
     bc\<lparr>transaction_pool := (transaction_pool bc)(tx_id tx := None),
        pending_transactions :=
          (if list_ex (\<lambda>t. tx_eq t tx) (pending_transactions bc)
           then remove_first (\<lambda>t. tx_eq t tx) (pending_transactions bc)
           else pending_transactions bc)\<rparr>"

definition add_block ::
  "(string \<Rightarrow> string) \<Rightarrow> Blockchain \<Rightarrow> Block \<Rightarrow> (error + bool) \<times> Blockchain" where
  "add_block H bc block =
     (case validate_block H bc block of
        Inl e \<Rightarrow> (Inl e, bc)
      | Inr ok \<Rightarrow>
          if \<not> ok then (Inr False, bc)
          else (Inr True,
                foldl remove_from_pool (bc\<lparr>chain := chain bc @ [block]\<rparr>) (transactions block)))"

text \<open>
  \<^verbatim>\<open>verify_integrity\<close>: the loop over \<^verbatim>\<open>enumerate(self.chain)\<close>, with \<open>i\<close> the position
  of the block at the head of the rest of the list.
\<close>

fun verify_loop :: "(string \<Rightarrow> string) \<Rightarrow> Blockchain \<Rightarrow> nat \<Rightarrow> Block list \<Rightarrow> error + bool" where
  "verify_loop H bc i [] = Inr True"
| "verify_loop H bc i (block # rest) =
     (if i > 0 \<and> previous_hash block \<noteq> block_hash (chain bc ! (i - 1)) then Inr False
      else
        (case validate_block H bc block of
           Inl e \<Rightarrow> Inl e
         | Inr ok \<Rightarrow> if \<not> ok then Inr False else verify_loop H bc (Suc i) rest))"

definition verify_integrity :: "(string \<Rightarrow> string) \<Rightarrow> Blockchain \<Rightarrow> error + bool" where
  "verify_integrity H bc = verify_loop H bc 0 (chain bc)"

section \<open>Proof of Authority (\<^verbatim>\<open>consensus.py\<close>)\<close>

record Validator =
  v_instance_id :: string
  name :: string
  address :: string
  public_key :: string
  is_active :: bool
  last_block_time :: "int option"

text \<open>
  \<^verbatim>\<open>self.validators\<close> is a dictionary, iterated in insertion order by
  \<^verbatim>\<open>get_current_validator\<close>: an association list, a new key appended at the end and a
  value changed in place.
\<close>

record ProofOfAuthority =
  blockchain :: Blockchain
  block_time :: int
  validators :: "(string \<times> Validator) list"
  current_validator_index :: int

definition add_validator :: "ProofOfAuthority \<Rightarrow> Validator \<Rightarrow> bool \<times> ProofOfAuthority" where
  "add_validator poa v =
     (if v_instance_id v \<in> set (map fst (validators poa)) then (False, poa)
      else (True, poa\<lparr>validators := validators poa @ [(v_instance_id v, v)]\<rparr>))"

text \<open>
  The assignment \<^verbatim>\<open>self.validators[instance_id].is_active = b\<close>. The class has no method
  that reactivates a validator: a caller does it with this assignment.
\<close>

definition set_is_active ::
  "ProofOfAuthority \<Rightarrow> string \<Rightarrow> bool \<Rightarrow> error + ProofOfAuthority" where
  "set_is_active poa iid b =
     (if iid \<notin> set (map fst (validators poa)) then Inl (KeyError iid)
      else Inr (poa\<lparr>validators :=
                  AList.map_entry iid (\<lambda>v. v\<lparr>is_active := b\<rparr>) (validators poa)\<rparr>))"

definition remove_validator :: "ProofOfAuthority \<Rightarrow> string \<Rightarrow> bool \<times> ProofOfAuthority" where
  "remove_validator poa iid =
     (if iid \<notin> set (map fst (validators poa)) then (False, poa)
      else (True, poa\<lparr>validators :=
                  AList.map_entry iid (\<lambda>v. v\<lparr>is_active := False\<rparr>) (validators poa)\<rparr>))"

definition default_validators :: "Validator list" where
  "default_validators =
     [\<lparr>v_instance_id = ''Melchior-001'', name = ''Melchior'',
       address = ''192.168.50.100:8545'', public_key = ''melchior_pubkey_placeholder'',
       is_active = True, last_block_time = None\<rparr>,
      \<lparr>v_instance_id = ''Balthasar-001'', name = ''Balthasar'',
       address = ''192.168.50.101:8545'', public_key = ''balthasar_pubkey_placeholder'',
       is_active = True, last_block_time = None\<rparr>,
      \<lparr>v_instance_id = ''Caspar-001'', name = ''Caspar'',
       address = ''192.168.50.102:8545'', public_key = ''caspar_pubkey_placeholder'',
       is_active = True, last_block_time = None\<rparr>,
      \<lparr>v_instance_id = ''NAS-001'', name = ''NAS'',
       address = ''192.168.50.78:8545'', public_key = ''nas_pubkey_placeholder'',
       is_active = True, last_block_time = None\<rparr>]"

text \<open>\<^verbatim>\<open>if validators:\<close> holds for a list that is given and not empty.\<close>

definition ProofOfAuthority_init ::
  "Blockchain \<Rightarrow> int \<Rightarrow> Validator list option \<Rightarrow> ProofOfAuthority" where
  "ProofOfAuthority_init bc bt vs_arg =
     foldl (\<lambda>poa v. snd (add_validator poa v))
       \<lparr>blockchain = bc, block_time = bt, validators = [], current_validator_index = 0\<rparr>
       (case vs_arg of
          None \<Rightarrow> default_validators
        | Some vs \<Rightarrow> if vs = [] then default_validators else vs)"

definition active_validators :: "ProofOfAuthority \<Rightarrow> Validator list" where
  "active_validators poa = filter is_active (map snd (validators poa))"

text \<open>Python's \<^verbatim>\<open>%\<close> with a positive divisor is never negative, as \<open>mod\<close> on \<open>int\<close>.\<close>

definition get_current_validator :: "ProofOfAuthority \<Rightarrow> Validator option" where
  "get_current_validator poa =
     (let act = active_validators poa
      in if act = [] then None
         else Some (act ! nat (current_validator_index poa mod int (length act))))"

definition is_my_turn :: "ProofOfAuthority \<Rightarrow> string \<Rightarrow> bool" where
  "is_my_turn poa iid =
     (case get_current_validator poa of
        None \<Rightarrow> False
      | Some current \<Rightarrow> v_instance_id current = iid)"

text \<open>
  \<open>now_s\<close> is the reading \<^verbatim>\<open>time.time()\<close>, a float of seconds. The interval
  \<^verbatim>\<open>time.time() * 1000 - (last_block.timestamp_micros / 1000)\<close> is computed in floats,
  each operation rounded, and compared with \<^verbatim>\<open>block_time\<close> by value. The divisor is the
  literal 1000, so the division cannot raise.
\<close>

definition can_create_block :: "ProofOfAuthority \<Rightarrow> string \<Rightarrow> num \<Rightarrow> bool" where
  "can_create_block poa iid now_s =
     (if \<not> is_my_turn poa iid then False
      else if chain (blockchain poa) \<noteq> [] \<and>
              (case true_div (block_timestamp_micros (last (chain (blockchain poa)))) 1000 of
                 None \<Rightarrow> False
               | Some ts_ms \<Rightarrow>
                   val (py_sub (py_mul now_s (PyInt 1000)) ts_ms) < of_int (block_time poa))
        then False
      else length (pending_transactions (blockchain poa)) > 0)"

text \<open>
  \<^verbatim>\<open>ProofOfAuthority.create_block\<close>. \<open>None\<close> is the refusal; an exception of the ledger's
  \<^verbatim>\<open>create_block\<close> passes through, after the ledger has cut its pending list.
\<close>

definition poa_create_block ::
  "(string \<Rightarrow> string) \<Rightarrow> ProofOfAuthority \<Rightarrow> string \<Rightarrow> num \<Rightarrow> int
     \<Rightarrow> (error + Block option) \<times> ProofOfAuthority" where
  "poa_create_block H poa iid now_s now =
     (if \<not> can_create_block poa iid now_s then (Inr None, poa)
      else
        (case map_of (validators poa) iid of
           None \<Rightarrow> (Inr None, poa)
         | Some v \<Rightarrow>
             if \<not> is_active v then (Inr None, poa)
             else
               (case create_block H (blockchain poa) None (Some iid) now of
                  (Inl e, bc') \<Rightarrow> (Inl e, poa\<lparr>blockchain := bc'\<rparr>)
                | (Inr block, bc') \<Rightarrow>
                    (Inr (Some block),
                     poa\<lparr>blockchain := bc',
                         validators :=
                           AList.map_entry iid
                             (\<lambda>v. v\<lparr>last_block_time := Some (block_timestamp_micros block)\<rparr>)
                             (validators poa),
                         current_validator_index := current_validator_index poa + 1\<rparr>))))"

definition validate_block_authority :: "ProofOfAuthority \<Rightarrow> Block \<Rightarrow> bool" where
  "validate_block_authority poa block =
     (case map_of (validators poa) (validator block) of
        None \<Rightarrow> False
      | Some v \<Rightarrow> is_active v)"

text \<open>\<^verbatim>\<open>list.index\<close>: the first position of an element, when it occurs.\<close>

fun list_index :: "'a list \<Rightarrow> 'a \<Rightarrow> nat option" where
  "list_index [] x = None"
| "list_index (y # ys) x =
     (if y = x then Some 0 else map_option Suc (list_index ys x))"

definition handle_new_block ::
  "(string \<Rightarrow> string) \<Rightarrow> ProofOfAuthority \<Rightarrow> Block \<Rightarrow> (error + bool) \<times> ProofOfAuthority" where
  "handle_new_block H poa block =
     (if \<not> validate_block_authority poa block then (Inr False, poa)
      else
        (case add_block H (blockchain poa) block of
           (Inl e, bc') \<Rightarrow> (Inl e, poa\<lparr>blockchain := bc'\<rparr>)
         | (Inr ok, bc') \<Rightarrow>
             if \<not> ok then (Inr False, poa\<lparr>blockchain := bc'\<rparr>)
             else
               (let vs' = AList.map_entry (validator block)
                            (\<lambda>v. v\<lparr>last_block_time := Some (block_timestamp_micros block)\<rparr>)
                            (validators poa);
                    ids = map v_instance_id (filter is_active (map snd vs'))
                in (Inr True,
                    poa\<lparr>blockchain := bc', validators := vs',
                        current_validator_index :=
                          (case list_index ids (validator block) of
                             None \<Rightarrow> current_validator_index poa
                           | Some k \<Rightarrow> int k + 1)\<rparr>))))"

section \<open>Contracts (\<^verbatim>\<open>contracts.py\<close>)\<close>

text \<open>
  A result is the dictionary the function returns, as the list of its items. The
  parameters are read at the types the contracts document (a name is a string, a duration
  an integer, a resource quantity a number, integer or float); \<open>None\<close> is a key that
  \<^verbatim>\<open>params\<close> does not have. The reading \<^verbatim>\<open>int(time.time() * 1_000_000)\<close> is the argument
  \<open>now\<close>.
\<close>

type_synonym result = "(string \<times> json) list"

record SmartContract =
  contract_id :: string
  owner :: string
  created_at :: int

subsection \<open>MemoryLockContract\<close>

record Lock =
  holder :: string
  acquired :: int
  expires :: int

record MemoryLockContract = SmartContract +
  locks :: "string \<rightharpoonup> Lock"
  lock_duration_ms :: int

record LockParams =
  p_entity_name :: "string option"
  p_duration_ms :: "int option"
  p_extension_ms :: "int option"
  p_lock_duration_ms :: "int option"

definition MemoryLockContract_init :: "string \<Rightarrow> string \<Rightarrow> int \<Rightarrow> MemoryLockContract" where
  "MemoryLockContract_init cid own now =
     \<lparr>contract_id = cid, owner = own, created_at = now,
      locks = Map.empty, lock_duration_ms = 30000\<rparr>"

text \<open>\<^verbatim>\<open>if not entity_name\<close>: the key is absent or the name is the empty string.\<close>

text \<open>\<^verbatim>\<open>params.get("duration_ms", self.state["lock_duration_ms"])\<close>.\<close>

definition duration_of :: "MemoryLockContract \<Rightarrow> LockParams \<Rightarrow> int" where
  "duration_of c params =
     (case p_duration_ms params of None \<Rightarrow> lock_duration_ms c | Some d \<Rightarrow> d)"

definition acquire_lock ::
  "MemoryLockContract \<Rightarrow> LockParams \<Rightarrow> string \<Rightarrow> int \<Rightarrow> result \<times> MemoryLockContract" where
  "acquire_lock c params caller now =
     (let duration_ms = duration_of c params
      in case p_entity_name params of
           None \<Rightarrow> ([(''success'', JBool False), (''error'', JStr ''entity_name required'')], c)
         | Some entity_name \<Rightarrow>
             if entity_name = []
             then ([(''success'', JBool False), (''error'', JStr ''entity_name required'')], c)
             else
               (let current_time = now;
                    new_lock = \<lparr>holder = caller, acquired = current_time,
                                expires = current_time + duration_ms * 1000\<rparr>;
                    installed =
                      ([(''success'', JBool True), (''entity_name'', JStr entity_name),
                        (''holder'', JStr caller), (''expires'', JInt (expires new_lock))],
                       c\<lparr>locks := (locks c)(entity_name \<mapsto> new_lock)\<rparr>)
                in case locks c entity_name of
                     None \<Rightarrow> installed
                   | Some lock \<Rightarrow>
                       if expires lock > current_time
                       then ([(''success'', JBool False),
                              (''error'', JStr ''Entity already locked''),
                              (''holder'', JStr (holder lock)),
                              (''expires'', JInt (expires lock))], c)
                       else installed))"

definition release_lock ::
  "MemoryLockContract \<Rightarrow> LockParams \<Rightarrow> string \<Rightarrow> result \<times> MemoryLockContract" where
  "release_lock c params caller =
     (case p_entity_name params of
        None \<Rightarrow> ([(''success'', JBool False), (''error'', JStr ''entity_name required'')], c)
      | Some entity_name \<Rightarrow>
          if entity_name = []
          then ([(''success'', JBool False), (''error'', JStr ''entity_name required'')], c)
          else
            (case locks c entity_name of
               None \<Rightarrow> ([(''success'', JBool False), (''error'', JStr ''No lock found'')], c)
             | Some lock \<Rightarrow>
                 if holder lock \<noteq> caller
                 then ([(''success'', JBool False),
                        (''error'', JStr ''Only lock holder can release'')], c)
                 else ([(''success'', JBool True), (''entity_name'', JStr entity_name)],
                       c\<lparr>locks := (locks c)(entity_name := None)\<rparr>)))"

definition check_lock ::
  "MemoryLockContract \<Rightarrow> LockParams \<Rightarrow> int \<Rightarrow> result \<times> MemoryLockContract" where
  "check_lock c params now =
     (case p_entity_name params of
        None \<Rightarrow> ([(''success'', JBool False), (''error'', JStr ''entity_name required'')], c)
      | Some entity_name \<Rightarrow>
          if entity_name = []
          then ([(''success'', JBool False), (''error'', JStr ''entity_name required'')], c)
          else
            (case locks c entity_name of
               None \<Rightarrow> ([(''success'', JBool True), (''locked'', JBool False)], c)
             | Some lock \<Rightarrow>
                 if expires lock \<le> now
                 then ([(''success'', JBool True), (''locked'', JBool False)],
                       c\<lparr>locks := (locks c)(entity_name := None)\<rparr>)
                 else ([(''success'', JBool True), (''locked'', JBool True),
                        (''holder'', JStr (holder lock)),
                        (''expires'', JInt (expires lock))], c)))"

definition extend_lock ::
  "MemoryLockContract \<Rightarrow> LockParams \<Rightarrow> string \<Rightarrow> result \<times> MemoryLockContract" where
  "extend_lock c params caller =
     (let extension_ms = (case p_extension_ms params of
                            None \<Rightarrow> lock_duration_ms c | Some e \<Rightarrow> e)
      in case p_entity_name params of
           None \<Rightarrow> ([(''success'', JBool False), (''error'', JStr ''entity_name required'')], c)
         | Some entity_name \<Rightarrow>
             if entity_name = []
             then ([(''success'', JBool False), (''error'', JStr ''entity_name required'')], c)
             else
               (case locks c entity_name of
                  None \<Rightarrow> ([(''success'', JBool False), (''error'', JStr ''No lock found'')], c)
                | Some lock \<Rightarrow>
                    if holder lock \<noteq> caller
                    then ([(''success'', JBool False),
                           (''error'', JStr ''Only lock holder can extend'')], c)
                    else
                      (let lock' = lock\<lparr>expires := expires lock + extension_ms * 1000\<rparr>
                       in ([(''success'', JBool True), (''entity_name'', JStr entity_name),
                            (''new_expires'', JInt (expires lock'))],
                           c\<lparr>locks := (locks c)(entity_name \<mapsto> lock')\<rparr>))))"

definition MemoryLockContract_validate :: "LockParams \<Rightarrow> bool" where
  "MemoryLockContract_validate params =
     (let duration = (case p_lock_duration_ms params of None \<Rightarrow> 30000 | Some d \<Rightarrow> d)
      in 1000 \<le> duration \<and> duration \<le> 300000)"

text \<open>
  \<^verbatim>\<open>execute\<close>: an exception leaves the contract as it was, so the error side carries no
  state.
\<close>

definition MemoryLockContract_execute ::
  "MemoryLockContract \<Rightarrow> string \<Rightarrow> LockParams \<Rightarrow> string \<Rightarrow> int
     \<Rightarrow> error + result \<times> MemoryLockContract" where
  "MemoryLockContract_execute c function params caller now =
     (if function = ''acquire_lock'' then Inr (acquire_lock c params caller now)
      else if function = ''release_lock'' then Inr (release_lock c params caller)
      else if function = ''check_lock'' then Inr (check_lock c params now)
      else if function = ''extend_lock'' then Inr (extend_lock c params caller)
      else Inl (ValueError (''Unknown function: '' @ function)))"

subsection \<open>ResourceAllocationContract\<close>

text \<open>
  The quantities are whatever numbers \<^verbatim>\<open>params\<close> holds, so the contract's arithmetic is
  Python's, on integers and floats. Its results carry numbers: they are lists of items
  over the values below.
\<close>

datatype pyval =
    VNone
  | VBool bool
  | VNum num
  | VStr string
  | VDict "(string \<times> pyval) list"

type_synonym rresult = "(string \<times> pyval) list"

record Resources =
  cpu :: num
  memory :: num
  storage :: num

record Allocation = Resources +
  allocated_at :: int

record Limits =
  total_cpu :: num
  total_memory :: num
  total_storage :: num

text \<open>
  \<^verbatim>\<open>allocations\<close> is a dictionary keyed by the caller: an association list in insertion
  order, a value replaced in place (\<open>AList.update\<close>) and a key deleted (\<open>AList.delete\<close>).
\<close>

record ResourceAllocationContract = SmartContract +
  allocations :: "(string \<times> Allocation) list"
  limits :: Limits
  used :: Resources

record ResourceParams =
  p_cpu :: "num option"
  p_memory :: "num option"
  p_storage :: "num option"
  p_instance_id :: "string option"

definition ResourceAllocationContract_init ::
  "string \<Rightarrow> string \<Rightarrow> int \<Rightarrow> ResourceAllocationContract" where
  "ResourceAllocationContract_init cid own now =
     \<lparr>contract_id = cid, owner = own, created_at = now,
      allocations = [],
      limits = \<lparr>total_cpu = PyInt 400, total_memory = PyInt 16384,
                total_storage = PyInt 102400\<rparr>,
      used = \<lparr>cpu = PyInt 0, memory = PyInt 0, storage = PyInt 0\<rparr>\<rparr>"

text \<open>\<^verbatim>\<open>params.get(key, 0)\<close>.\<close>

definition get_or_zero :: "num option \<Rightarrow> num" where
  "get_or_zero v = (case v of None \<Rightarrow> PyInt 0 | Some x \<Rightarrow> x)"

definition allocation_val :: "Allocation \<Rightarrow> pyval" where
  "allocation_val a =
     VDict [(''cpu'', VNum (cpu a)), (''memory'', VNum (memory a)),
            (''storage'', VNum (storage a)), (''allocated_at'', VNum (PyInt (allocated_at a)))]"

definition available_val :: "Limits \<Rightarrow> Resources \<Rightarrow> pyval" where
  "available_val l u =
     VDict [(''cpu'', VNum (py_sub (total_cpu l) (cpu u))),
            (''memory'', VNum (py_sub (total_memory l) (memory u))),
            (''storage'', VNum (py_sub (total_storage l) (storage u)))]"

definition request_resources ::
  "ResourceAllocationContract \<Rightarrow> ResourceParams \<Rightarrow> string \<Rightarrow> int
     \<Rightarrow> rresult \<times> ResourceAllocationContract" where
  "request_resources c params caller now =
     (let cpu' = get_or_zero (p_cpu params);
          memory' = get_or_zero (p_memory params);
          storage' = get_or_zero (p_storage params);
          l = limits c;
          u = used c
      in if py_gt (py_add (cpu u) cpu') (total_cpu l) \<or>
            py_gt (py_add (memory u) memory') (total_memory l) \<or>
            py_gt (py_add (storage u) storage') (total_storage l)
         then ([(''success'', VBool False), (''error'', VStr ''Insufficient resources''),
                (''available'', available_val l u)], c)
         else
           (let u1 = (case map_of (allocations c) caller of
                        None \<Rightarrow> u
                      | Some old_alloc \<Rightarrow>
                          \<lparr>cpu = py_sub (cpu u) (cpu old_alloc),
                           memory = py_sub (memory u) (memory old_alloc),
                           storage = py_sub (storage u) (storage old_alloc)\<rparr>);
                new_alloc = \<lparr>cpu = cpu', memory = memory', storage = storage',
                             allocated_at = now\<rparr>;
                u2 = \<lparr>cpu = py_add (cpu u1) cpu', memory = py_add (memory u1) memory',
                      storage = py_add (storage u1) storage'\<rparr>
            in ([(''success'', VBool True), (''allocation'', allocation_val new_alloc)],
                c\<lparr>allocations := AList.update caller new_alloc (allocations c),
                   used := u2\<rparr>)))"

definition release_resources ::
  "ResourceAllocationContract \<Rightarrow> ResourceParams \<Rightarrow> string
     \<Rightarrow> rresult \<times> ResourceAllocationContract" where
  "release_resources c params caller =
     (case map_of (allocations c) caller of
        None \<Rightarrow> ([(''success'', VBool False), (''error'', VStr ''No allocation found'')], c)
      | Some alloc \<Rightarrow>
          ([(''success'', VBool True)],
           c\<lparr>used := \<lparr>cpu = py_sub (cpu (used c)) (cpu alloc),
                      memory = py_sub (memory (used c)) (memory alloc),
                      storage = py_sub (storage (used c)) (storage alloc)\<rparr>,
              allocations := AList.delete caller (allocations c)\<rparr>))"

definition get_allocation ::
  "ResourceAllocationContract \<Rightarrow> ResourceParams \<Rightarrow> rresult \<times> ResourceAllocationContract" where
  "get_allocation c params =
     (case p_instance_id params of
        None \<Rightarrow> ([(''success'', VBool False), (''error'', VStr ''instance_id required'')], c)
      | Some iid \<Rightarrow>
          if iid = []
          then ([(''success'', VBool False), (''error'', VStr ''instance_id required'')], c)
          else
            (case map_of (allocations c) iid of
               None \<Rightarrow> ([(''success'', VBool True), (''allocation'', VNone)], c)
             | Some a \<Rightarrow> ([(''success'', VBool True), (''allocation'', allocation_val a)], c)))"

definition get_usage :: "ResourceAllocationContract \<Rightarrow> rresult \<times> ResourceAllocationContract" where
  "get_usage c =
     ([(''success'', VBool True),
       (''limits'', VDict [(''total_cpu'', VNum (total_cpu (limits c))),
                           (''total_memory'', VNum (total_memory (limits c))),
                           (''total_storage'', VNum (total_storage (limits c)))]),
       (''used'', VDict [(''cpu'', VNum (cpu (used c))),
                         (''memory'', VNum (memory (used c))),
                         (''storage'', VNum (storage (used c)))]),
       (''available'', available_val (limits c) (used c))], c)"

text \<open>\<^verbatim>\<open>validate\<close>: \<^verbatim>\<open>cpu >= 0 and memory >= 0 and storage >= 0\<close>, compared by value.\<close>

definition ResourceAllocationContract_validate :: "ResourceParams \<Rightarrow> bool" where
  "ResourceAllocationContract_validate params =
     (0 \<le> val (get_or_zero (p_cpu params)) \<and> 0 \<le> val (get_or_zero (p_memory params)) \<and>
      0 \<le> val (get_or_zero (p_storage params)))"

definition ResourceAllocationContract_execute ::
  "ResourceAllocationContract \<Rightarrow> string \<Rightarrow> ResourceParams \<Rightarrow> string \<Rightarrow> int
     \<Rightarrow> error + rresult \<times> ResourceAllocationContract" where
  "ResourceAllocationContract_execute c function params caller now =
     (if function = ''request_resources'' then Inr (request_resources c params caller now)
      else if function = ''release_resources'' then Inr (release_resources c params caller)
      else if function = ''get_allocation'' then Inr (get_allocation c params)
      else if function = ''get_usage'' then Inr (get_usage c)
      else Inl (ValueError (''Unknown function: '' @ function)))"

subsection \<open>WorkflowAutomationContract\<close>

record Workflow =
  w_owner :: string
  steps :: "json list"
  triggers :: "json list"
  w_created_at :: int
  w_is_active :: bool

record Execution =
  workflow_id :: string
  triggered_by :: string
  started_at :: int
  status :: string
  current_step :: int
  input_data :: "(string \<times> json) list"
  step_results :: "json list"

record WorkflowAutomationContract = SmartContract +
  workflows :: "string \<rightharpoonup> Workflow"
  executions :: "string \<rightharpoonup> Execution"

record WorkflowParams =
  p_workflow_id :: "string option"
  p_steps :: "json list option"
  p_triggers :: "json list option"
  p_input_data :: "(string \<times> json) list option"
  p_execution_id :: "string option"

definition WorkflowAutomationContract_init ::
  "string \<Rightarrow> string \<Rightarrow> int \<Rightarrow> WorkflowAutomationContract" where
  "WorkflowAutomationContract_init cid own now =
     \<lparr>contract_id = cid, owner = own, created_at = now,
      workflows = Map.empty, executions = Map.empty\<rparr>"

definition register_workflow ::
  "WorkflowAutomationContract \<Rightarrow> WorkflowParams \<Rightarrow> string \<Rightarrow> int
     \<Rightarrow> result \<times> WorkflowAutomationContract" where
  "register_workflow c params caller now =
     (let steps' = (case p_steps params of None \<Rightarrow> [] | Some s \<Rightarrow> s);
          triggers' = (case p_triggers params of None \<Rightarrow> [] | Some t \<Rightarrow> t)
      in case p_workflow_id params of
           None \<Rightarrow> ([(''success'', JBool False),
                      (''error'', JStr ''workflow_id and steps required'')], c)
         | Some wid \<Rightarrow>
             if wid = [] \<or> steps' = []
             then ([(''success'', JBool False),
                    (''error'', JStr ''workflow_id and steps required'')], c)
             else ([(''success'', JBool True), (''workflow_id'', JStr wid)],
                   c\<lparr>workflows := (workflows c)(wid \<mapsto>
                        \<lparr>w_owner = caller, steps = steps', triggers = triggers',
                         w_created_at = now, w_is_active = True\<rparr>)\<rparr>))"

text \<open>
  \<^verbatim>\<open>_trigger_workflow\<close> reads the clock twice: \<open>now\<close> names the execution and \<open>now'\<close> is
  its start.
\<close>

definition trigger_workflow ::
  "WorkflowAutomationContract \<Rightarrow> WorkflowParams \<Rightarrow> string \<Rightarrow> int \<Rightarrow> int
     \<Rightarrow> result \<times> WorkflowAutomationContract" where
  "trigger_workflow c params caller now now' =
     (let input_data' = (case p_input_data params of None \<Rightarrow> [] | Some d \<Rightarrow> d)
      in case p_workflow_id params of
           None \<Rightarrow> ([(''success'', JBool False), (''error'', JStr ''workflow_id required'')], c)
         | Some wid \<Rightarrow>
             if wid = []
             then ([(''success'', JBool False), (''error'', JStr ''workflow_id required'')], c)
             else
               (case workflows c wid of
                  None \<Rightarrow> ([(''success'', JBool False),
                             (''error'', JStr ''Workflow not found'')], c)
                | Some workflow \<Rightarrow>
                    (let execution_id = wid @ ''-'' @ str_int now
                     in ([(''success'', JBool True), (''execution_id'', JStr execution_id)],
                         c\<lparr>executions := (executions c)(execution_id \<mapsto>
                              \<lparr>workflow_id = wid, triggered_by = caller, started_at = now',
                               status = ''running'', current_step = 0,
                               input_data = input_data', step_results = []\<rparr>)\<rparr>))))"

definition execution_json :: "Execution \<Rightarrow> json" where
  "execution_json e =
     JDict [(''workflow_id'', JStr (workflow_id e)),
            (''triggered_by'', JStr (triggered_by e)),
            (''started_at'', JInt (started_at e)),
            (''status'', JStr (status e)),
            (''current_step'', JInt (current_step e)),
            (''input_data'', JDict (input_data e)),
            (''step_results'', JList (step_results e))]"

definition get_execution_status ::
  "WorkflowAutomationContract \<Rightarrow> WorkflowParams \<Rightarrow> result \<times> WorkflowAutomationContract" where
  "get_execution_status c params =
     (case p_execution_id params of
        None \<Rightarrow> ([(''success'', JBool False), (''error'', JStr ''execution_id required'')], c)
      | Some eid \<Rightarrow>
          if eid = []
          then ([(''success'', JBool False), (''error'', JStr ''execution_id required'')], c)
          else
            (case executions c eid of
               None \<Rightarrow> ([(''success'', JBool False),
                          (''error'', JStr ''Execution not found'')], c)
             | Some e \<Rightarrow> ([(''success'', JBool True), (''execution'', execution_json e)], c)))"

definition WorkflowAutomationContract_validate :: "WorkflowParams \<Rightarrow> bool" where
  "WorkflowAutomationContract_validate params =
     (length (case p_steps params of None \<Rightarrow> [] | Some s \<Rightarrow> s) > 0)"

definition WorkflowAutomationContract_execute ::
  "WorkflowAutomationContract \<Rightarrow> string \<Rightarrow> WorkflowParams \<Rightarrow> string \<Rightarrow> int \<Rightarrow> int
     \<Rightarrow> error + result \<times> WorkflowAutomationContract" where
  "WorkflowAutomationContract_execute c function params caller now now' =
     (if function = ''register_workflow'' then Inr (register_workflow c params caller now)
      else if function = ''trigger_workflow''
        then Inr (trigger_workflow c params caller now now')
      else if function = ''get_execution_status'' then Inr (get_execution_status c params)
      else Inl (ValueError (''Unknown function: '' @ function)))"

subsection \<open>Building a chain\<close>

text \<open>
  The body of the loop of \<^verbatim>\<open>test_blockchain_integrity_verification\<close> in
  \<^verbatim>\<open>tests/test_blockchain.py\<close>: create a transaction, create a block from the pending
  list, add it; \<open>append_blocks\<close> runs it once for each entry of a list.
\<close>

definition append_block ::
  "(string \<Rightarrow> string) \<Rightarrow> Blockchain \<Rightarrow> string \<Rightarrow> (string \<times> json) list \<Rightarrow> int \<Rightarrow> int
     \<Rightarrow> (error + bool) \<times> Blockchain" where
  "append_block H bc op d now now' =
     (let (tx, bc1) = create_transaction H bc op d None now
      in case create_block H bc1 None None now' of
           (Inl e, bc2) \<Rightarrow> (Inl e, bc2)
         | (Inr block, bc2) \<Rightarrow> add_block H bc2 block)"

fun append_blocks ::
  "(string \<Rightarrow> string) \<Rightarrow> Blockchain \<Rightarrow> (string \<times> (string \<times> json) list \<times> int \<times> int) list
     \<Rightarrow> error + bool list \<times> Blockchain" where
  "append_blocks H bc [] = Inr ([], bc)"
| "append_blocks H bc ((op, d, now, now') # rest) =
     (case append_block H bc op d now now' of
        (Inl e, bc') \<Rightarrow> Inl e
      | (Inr ok, bc') \<Rightarrow>
          (case append_blocks H bc' rest of
             Inl e \<Rightarrow> Inl e
           | Inr (oks, bc'') \<Rightarrow> Inr (ok # oks, bc'')))"

text \<open>Every pending transaction has its \<open>tx_id\<close> in the transaction pool.\<close>

definition pending_indexed :: "Blockchain \<Rightarrow> bool" where
  "pending_indexed bc =
     list_all (\<lambda>tx. transaction_pool bc (tx_id tx) \<noteq> None) (pending_transactions bc)"

text \<open>
  What the ledger's own operations keep true: there is a head, a block's index is its
  position, and every pending transaction carries the hash of its content.
\<close>

definition ledger_ok :: "(string \<Rightarrow> string) \<Rightarrow> Blockchain \<Rightarrow> bool" where
  "ledger_ok H bc =
     (chain bc \<noteq> [] \<and> index (last (chain bc)) = int (length (chain bc)) - 1 \<and>
      list_all (validate_transaction H) (pending_transactions bc))"

subsection \<open>The rotation pointer and the registry\<close>

text \<open>
  One advance of the rotation pointer, \<^verbatim>\<open>self.current_validator_index += 1\<close>: the last
  step of \<^verbatim>\<open>create_block\<close>, and what \<^verbatim>\<open>test_validator_rotation\<close> does by hand.
\<close>

definition advance :: "ProofOfAuthority \<Rightarrow> ProofOfAuthority" where
  "advance poa = poa\<lparr>current_validator_index := current_validator_index poa + 1\<rparr>"

text \<open>
  What \<^verbatim>\<open>add_validator\<close> and \<^verbatim>\<open>remove_validator\<close> keep true of the registry: its keys
  are distinct, as those of a dictionary are, and each validator is stored under its own
  \<open>instance_id\<close>.
\<close>

definition registry_ok :: "ProofOfAuthority \<Rightarrow> bool" where
  "registry_ok poa =
     (distinct (map fst (validators poa)) \<and>
      list_all (\<lambda>(k, v). v_instance_id v = k) (validators poa))"

subsection \<open>Sequences of calls of the resource contract\<close>

text \<open>
  A sequence of calls of \<^verbatim>\<open>execute\<close>, each with its function name, parameters, caller
  and clock reading; a call that raises leaves the contract as it was.
\<close>

fun run_calls ::
  "ResourceAllocationContract \<Rightarrow> (string \<times> ResourceParams \<times> string \<times> int) list
     \<Rightarrow> ResourceAllocationContract" where
  "run_calls c [] = c"
| "run_calls c ((function, params, caller, now) # rest) =
     run_calls
       (case ResourceAllocationContract_execute c function params caller now of
          Inl e \<Rightarrow> c
        | Inr (r, c') \<Rightarrow> c')
       rest"

text \<open>
  In each dimension the value of \<^verbatim>\<open>used\<close> is the sum of the values over the entries of
  \<^verbatim>\<open>allocations\<close>, and it lies between 0 and the limit.
\<close>

definition used_is_sum :: "ResourceAllocationContract \<Rightarrow> bool" where
  "used_is_sum c =
     (val (cpu (used c)) = sum_list (map (\<lambda>(k, a). val (cpu a)) (allocations c)) \<and>
      val (memory (used c)) = sum_list (map (\<lambda>(k, a). val (memory a)) (allocations c)) \<and>
      val (storage (used c)) = sum_list (map (\<lambda>(k, a). val (storage a)) (allocations c)))"

definition within_limits :: "ResourceAllocationContract \<Rightarrow> bool" where
  "within_limits c =
     (0 \<le> val (cpu (used c)) \<and> val (cpu (used c)) \<le> val (total_cpu (limits c)) \<and>
      0 \<le> val (memory (used c)) \<and> val (memory (used c)) \<le> val (total_memory (limits c)) \<and>
      0 \<le> val (storage (used c)) \<and> val (storage (used c)) \<le> val (total_storage (limits c)))"

text \<open>Every \<^verbatim>\<open>request_resources\<close> call of a sequence passes the contract's \<^verbatim>\<open>validate\<close>.\<close>

definition nonneg_requests :: "(string \<times> ResourceParams \<times> string \<times> int) list \<Rightarrow> bool" where
  "nonneg_requests calls =
     list_all (\<lambda>(function, params, caller, now).
        function = ''request_resources'' \<longrightarrow> ResourceAllocationContract_validate params) calls"

text \<open>
  Every \<^verbatim>\<open>request_resources\<close> call of a sequence passes Python integers (or leaves the
  quantity out, which reads as the integer 0).
\<close>

definition integer_params :: "ResourceParams \<Rightarrow> bool" where
  "integer_params params =
     (is_py_int (get_or_zero (p_cpu params)) \<and> is_py_int (get_or_zero (p_memory params)) \<and>
      is_py_int (get_or_zero (p_storage params)))"

definition integer_requests :: "(string \<times> ResourceParams \<times> string \<times> int) list \<Rightarrow> bool" where
  "integer_requests calls =
     list_all (\<lambda>(function, params, caller, now).
        function = ''request_resources'' \<longrightarrow> integer_params params) calls"

text \<open>Every quantity the contract holds is a Python integer.\<close>

definition integers_only :: "ResourceAllocationContract \<Rightarrow> bool" where
  "integers_only c =
     (is_py_int (cpu (used c)) \<and> is_py_int (memory (used c)) \<and> is_py_int (storage (used c)) \<and>
      list_all (\<lambda>(k, a). is_py_int (cpu a) \<and> is_py_int (memory a) \<and> is_py_int (storage a))
        (allocations c))"

text \<open>The keys of \<^verbatim>\<open>allocations\<close> are distinct and no entry holds a negative quantity.\<close>

definition allocations_ok :: "ResourceAllocationContract \<Rightarrow> bool" where
  "allocations_ok c =
     (distinct (map fst (allocations c)) \<and>
      list_all (\<lambda>(k, a). 0 \<le> val (cpu a) \<and> 0 \<le> val (memory a) \<and> 0 \<le> val (storage a))
        (allocations c))"

definition resources_inv :: "ResourceAllocationContract \<Rightarrow> bool" where
  "resources_inv c = (allocations_ok c \<and> integers_only c \<and> used_is_sum c \<and> within_limits c)"

definition sum_inv :: "ResourceAllocationContract \<Rightarrow> bool" where
  "sum_inv c = (distinct (map fst (allocations c)) \<and> integers_only c \<and> used_is_sum c)"

chapter \<open>Properties\<close>

section \<open>Transaction identifiers\<close>

text \<open>\<open>sort_items\<close> sorts: its result is ordered by key and has the same items.\<close>

lemma str_le_refl: "str_le a a"
  by (induction a) auto

lemma str_le_total: "str_le a b \<or> str_le b a"
  by (induction a b rule: str_le.induct) auto

lemma str_le_trans: "str_le a b \<Longrightarrow> str_le b c \<Longrightarrow> str_le a c"
proof (induction a b arbitrary: c rule: str_le.induct)
  case (1 ys)
  then show ?case by simp
next
  case (2 x xs)
  then show ?case by simp
next
  case (3 x xs y ys)
  then show ?case by (cases c) (auto split: if_splits)
qed

lemma str_le_antisym: "str_le a b \<Longrightarrow> str_le b a \<Longrightarrow> a = b"
proof (induction a b rule: str_le.induct)
  case (1 ys)
  then show ?case by (cases ys) auto
next
  case (2 x xs)
  then show ?case by simp
next
  case (3 x xs y ys)
  then have "(of_char x :: nat) = of_char y" by (auto split: if_splits)
  then have "x = y" by simp
  with 3 show ?case by (auto split: if_splits)
qed

lemma set_insert_item [simp]: "set (insert_item kv xs) = insert kv (set xs)"
  by (induction xs) auto

lemma sorted_insert_item:
  "sorted_wrt key_le xs \<Longrightarrow> sorted_wrt key_le (insert_item kv xs)"
proof (induction xs)
  case Nil
  show ?case by simp
next
  case (Cons x xs)
  show ?case
  proof (cases "str_le (fst kv) (fst x)")
    case True
    with Cons.prems show ?thesis
      by (auto simp: key_le_def intro: str_le_trans)
  next
    case False
    then have "str_le (fst x) (fst kv)" using str_le_total by blast
    with False Cons show ?thesis by (auto simp: key_le_def)
  qed
qed

lemma set_sort_items [simp]: "set (sort_items kvs) = set kvs"
  by (induction kvs) (simp_all add: sort_items_def)

lemma sorted_sort_items: "sorted_wrt key_le (sort_items kvs)"
  by (induction kvs) (simp_all add: sort_items_def sorted_insert_item)

lemma length_insert_item [simp]: "length (insert_item kv xs) = Suc (length xs)"
  by (induction xs) auto

lemma length_sort_items [simp]: "length (sort_items kvs) = length kvs"
  by (induction kvs) (simp_all add: sort_items_def)

lemma distinct_keys_insert_item:
  "distinct (map fst (insert_item kv xs)) = distinct (map fst (kv # xs))"
  by (induction xs) auto

lemma distinct_keys_sort_items:
  "distinct (map fst (sort_items kvs)) = distinct (map fst kvs)"
proof (induction kvs)
  case Nil
  show ?case by (simp add: sort_items_def)
next
  case (Cons kv kvs)
  have "sort_items (kv # kvs) = insert_item kv (sort_items kvs)"
    by (simp add: sort_items_def)
  with Cons show ?case
    by (simp add: distinct_keys_insert_item)
qed

text \<open>
  A list of items with distinct keys has one sorted arrangement only, so the text of a
  dictionary does not depend on the order in which its keys were inserted.
\<close>

lemma sorted_distinct_keys_unique:
  "sorted_wrt key_le xs \<Longrightarrow> sorted_wrt key_le ys \<Longrightarrow>
   distinct (map fst xs) \<Longrightarrow> distinct (map fst ys) \<Longrightarrow> set xs = set ys \<Longrightarrow> xs = ys"
proof (induction xs arbitrary: ys)
  case Nil
  then show ?case by simp
next
  case (Cons x xs)
  then obtain y ys' where ys: "ys = y # ys'" by (cases ys) auto
  have xy: "x = y"
  proof (rule ccontr)
    assume ne: "x \<noteq> y"
    with Cons.prems(5) ys have "x \<in> set ys'" and "y \<in> set xs" by auto
    with Cons.prems(1,2) ys have "key_le y x" and "key_le x y" by auto
    then have "fst x = fst y" by (auto simp: key_le_def intro: str_le_antisym)
    moreover from \<open>y \<in> set xs\<close> Cons.prems(3) have "fst x \<noteq> fst y" by force
    ultimately show False by simp
  qed
  have "set xs = set ys'"
  proof -
    from Cons.prems(3) have "x \<notin> set xs" by force
    moreover from Cons.prems(4) ys xy have "x \<notin> set ys'" by force
    ultimately show ?thesis using Cons.prems(5) ys xy by auto
  qed
  with Cons ys xy show ?case by auto
qed

lemma sort_items_canonical:
  assumes "distinct (map fst xs)" and "distinct (map fst ys)" and "set xs = set ys"
  shows "sort_items xs = sort_items ys"
  using assms
  by (intro sorted_distinct_keys_unique)
     (simp_all add: sorted_sort_items distinct_keys_sort_items)

lemma dumps_dict_order:
  assumes "distinct (map fst d)" and "distinct (map fst d')" and "set d = set d'"
  shows "dumps (JDict d) = dumps (JDict d')"
proof -
  let ?f = "\<lambda>(k, v). (k, dumps v)"
  have "distinct (map fst (map ?f d))" "distinct (map fst (map ?f d'))"
    using assms(1,2) by (simp_all add: comp_def split_beta)
  moreover have "set (map ?f d) = set (map ?f d')"
    using assms(3) by simp
  ultimately have "sort_items (map ?f d) = sort_items (map ?f d')"
    by (rule sort_items_canonical)
  then show ?thesis by simp
qed

text \<open>
  The text that \<^verbatim>\<open>_calculate_data_hash\<close> digests has its four keys in sorted order,
  whatever order the dictionary literal lists them in.
\<close>

lemma canonical_tx_content:
  "dumps (JDict [(''operation'', JStr op), (''data'', JDict d),
                 (''timestamp_micros'', JInt ts), (''instance_id'', JStr iid)])
   = ''{\"data\": '' @ dumps (JDict d) @ '', \"instance_id\": '' @ encode_str iid
       @ '', \"operation\": '' @ encode_str op @ '', \"timestamp_micros\": '' @ str_int ts @ ''}''"
  by (subst dumps.simps(6))
     (simp add: sort_items_def encode_str_def escape_char_def del: dumps.simps(6))

text \<open>
  C4. A constructed transaction has
  \<open>tx_id = "{timestamp_micros}-{instance_id}-{first 8 characters of H(operation + dumps(data))}"\<close>
  and \<open>data_hash = H(dumps({operation, data, timestamp_micros, instance_id}))\<close>, with
  \<open>dumps\<close> the key-sorted JSON text; so constructions from equal inputs have the same
  \<open>tx_id\<close> and the same \<open>data_hash\<close>, also when \<open>data\<close> is the same dictionary with its
  keys inserted in another order.
\<close>

theorem transaction_ids_from_inputs:
  "tx_id (Transaction_init H op d ts iid)
     = str_int ts @ ''-'' @ iid @ ''-'' @ take 8 (H (op @ dumps (JDict d)))
   \<and> data_hash (Transaction_init H op d ts iid)
     = H (dumps (JDict [(''operation'', JStr op), (''data'', JDict d),
                        (''timestamp_micros'', JInt ts), (''instance_id'', JStr iid)]))
   \<and> (op' = op \<and> d' = d \<and> ts' = ts \<and> iid' = iid \<longrightarrow>
        tx_id (Transaction_init H op' d' ts' iid') = tx_id (Transaction_init H op d ts iid) \<and>
        data_hash (Transaction_init H op' d' ts' iid')
          = data_hash (Transaction_init H op d ts iid))
   \<and> (distinct (map fst d) \<and> distinct (map fst d'') \<and> set d'' = set d \<longrightarrow>
        tx_id (Transaction_init H op d'' ts iid) = tx_id (Transaction_init H op d ts iid) \<and>
        data_hash (Transaction_init H op d'' ts iid)
          = data_hash (Transaction_init H op d ts iid))"
proof -
  have ids: "tx_id (Transaction_init H op x ts iid)
      = str_int ts @ ''-'' @ iid @ ''-'' @ take 8 (H (op @ dumps (JDict x)))" for x
    by (simp add: Transaction_init_def Let_def)
  have hash: "data_hash (Transaction_init H op x ts iid)
      = H (dumps (JDict [(''operation'', JStr op), (''data'', JDict x),
                         (''timestamp_micros'', JInt ts), (''instance_id'', JStr iid)]))" for x
    by (simp add: Transaction_init_def calculate_data_hash_def Let_def)
  have same: "tx_id (Transaction_init H op d'' ts iid) = tx_id (Transaction_init H op d ts iid)
      \<and> data_hash (Transaction_init H op d'' ts iid)
          = data_hash (Transaction_init H op d ts iid)"
    if "distinct (map fst d) \<and> distinct (map fst d'') \<and> set d'' = set d"
  proof -
    from that have "dumps (JDict d'') = dumps (JDict d)"
      by (intro dumps_dict_order) simp_all
    then show ?thesis
      by (simp only: ids hash canonical_tx_content)
  qed
  have eq: "tx_id (Transaction_init H op' d' ts' iid') = tx_id (Transaction_init H op d ts iid)
      \<and> data_hash (Transaction_init H op' d' ts' iid')
          = data_hash (Transaction_init H op d ts iid)"
    if "op' = op \<and> d' = d \<and> ts' = ts \<and> iid' = iid"
    using that by simp
  from ids[of d] hash[of d] eq same show ?thesis by blast
qed


text \<open>
  The transaction of \<^verbatim>\<open>test_transaction_creation\<close>, with its keys in either order.
\<close>

theorem transaction_ids_from_inputs_witness:
  "\<forall>H.
     tx_id (Transaction_init H ''create_entity''
              [(''name'', JStr ''TestEntity''), (''type'', JStr ''Test'')]
              1750400000000000 ''TEST-001'')
       = ''1750400000000000-TEST-001-''
           @ take 8 (H ''create_entity{\"name\": \"TestEntity\", \"type\": \"Test\"}'')
     \<and> data_hash (Transaction_init H ''create_entity''
              [(''type'', JStr ''Test''), (''name'', JStr ''TestEntity'')]
              1750400000000000 ''TEST-001'')
       = H (''{\"data\": {\"name\": \"TestEntity\", \"type\": \"Test\"}, ''
            @ ''\"instance_id\": \"TEST-001\", \"operation\": \"create_entity\", ''
            @ ''\"timestamp_micros\": 1750400000000000}'')"
proof
  fix H :: "string \<Rightarrow> string"
  have n: "str_int 1750400000000000 = ''1750400000000000''"
    by (simp add: str_int_def str_nat.simps digit_char_def)
  show "tx_id (Transaction_init H ''create_entity''
              [(''name'', JStr ''TestEntity''), (''type'', JStr ''Test'')]
              1750400000000000 ''TEST-001'')
       = ''1750400000000000-TEST-001-''
           @ take 8 (H ''create_entity{\"name\": \"TestEntity\", \"type\": \"Test\"}'')
     \<and> data_hash (Transaction_init H ''create_entity''
              [(''type'', JStr ''Test''), (''name'', JStr ''TestEntity'')]
              1750400000000000 ''TEST-001'')
       = H (''{\"data\": {\"name\": \"TestEntity\", \"type\": \"Test\"}, ''
            @ ''\"instance_id\": \"TEST-001\", \"operation\": \"create_entity\", ''
            @ ''\"timestamp_micros\": 1750400000000000}'')"
    using transaction_ids_from_inputs
            [of H "''create_entity''" "[(''name'', JStr ''TestEntity''), (''type'', JStr ''Test'')]"
                1750400000000000 "''TEST-001''"]
          transaction_ids_from_inputs
            [of H "''create_entity''" "[(''type'', JStr ''Test''), (''name'', JStr ''TestEntity'')]"
                1750400000000000 "''TEST-001''"]
    by (simp add: n sort_items_def encode_str_def escape_char_def)
qed

section \<open>The Merkle root\<close>

lemma dup_last_Cons2: "dup_last (a # b # rest) = a # b # dup_last rest"
  by (cases rest) (auto simp: dup_last_def)

lemma pair_level_Cons2: "pair_level H (a # b # xs) = H (a @ b) # pair_level H xs"
proof -
  have "[0..<(length (a # b # xs) + 1) div 2] = 0 # map Suc [0..<(length xs + 1) div 2]"
    by (simp add: upt_conv_Cons map_Suc_upt del: upt_Suc)
  then show ?thesis
    by (simp add: pair_level_def comp_def del: upt_Suc)
qed

text \<open>One pass of the source's loop body is one pairing pass of the specification.\<close>

lemma pair_level_dup_last: "pair_level H (dup_last hashes) = pair_up H hashes"
proof (induction H hashes rule: pair_up.induct)
  case (1 H)
  show ?case by (simp add: dup_last_def pair_level_def)
next
  case (2 H a)
  show ?case by (simp add: dup_last_def pair_level_def)
next
  case (3 H a b rest)
  then show ?case by (simp add: dup_last_Cons2 pair_level_Cons2)
qed

lemma pair_up_not_Nil: "hashes \<noteq> [] \<Longrightarrow> pair_up H hashes \<noteq> []"
  by (induction H hashes rule: pair_up.induct) auto

text \<open>The loop ends with exactly one hash, so \<^verbatim>\<open>hashes[0]\<close> is read in range.\<close>

lemma merkle_loop_fold:
  "hashes \<noteq> [] \<Longrightarrow> merkle_loop H hashes = [merkle_fold H hashes]"
proof (induction H hashes rule: merkle_fold.induct)
  case (1 H)
  then show ?case by simp
next
  case (2 H h)
  show ?case by (simp add: merkle_loop.simps)
next
  case (3 H a b rest)
  have "merkle_loop H (a # b # rest) = merkle_loop H (pair_up H (a # b # rest))"
    by (subst merkle_loop.simps) (simp add: pair_level_dup_last del: pair_up.simps)
  with 3 show ?case
    by (simp add: pair_up_not_Nil del: pair_up.simps)
qed

lemma calculate_merkle_root_fold:
  "calculate_merkle_root H b = merkle_fold H (map data_hash (transactions b))"
  by (cases "transactions b") (simp_all add: calculate_merkle_root_def merkle_loop_fold)

text \<open>
  C5. The \<open>merkle_root\<close> stored in a constructed block is the pairwise fold of its
  transactions' \<open>data_hash\<close> values (\<open>merkle_fold\<close>: the last hash paired with itself on a
  level of odd length, until one hash remains); a block constructed with no transactions
  has \<open>merkle_root = H "empty"\<close>; and recomputing over the stored transactions of a
  constructed block gives its stored \<open>merkle_root\<close>.
\<close>

theorem block_merkle_root:
  "merkle_root (Block_init H i ts prev v txs) = merkle_fold H (map data_hash txs)
   \<and> merkle_root (Block_init H i ts prev v []) = H ''empty''
   \<and> calculate_merkle_root H (Block_init H i ts prev v txs)
       = merkle_root (Block_init H i ts prev v txs)"
  by (simp add: Block_init_def Let_def calculate_merkle_root_fold)

text \<open>Three transactions: the third hash is paired with itself on the first level.\<close>

theorem block_merkle_root_witness:
  "\<forall>H.
     merkle_root (Block_init H 1 1750400002000000 (replicate 64 CHR ''0'') ''TEST-001''
        [Transaction_init H ''a'' [] 1 ''TEST-001'',
         Transaction_init H ''b'' [] 2 ''TEST-001'',
         Transaction_init H ''c'' [] 3 ''TEST-001''])
     = H (H (data_hash (Transaction_init H ''a'' [] 1 ''TEST-001'')
              @ data_hash (Transaction_init H ''b'' [] 2 ''TEST-001''))
          @ H (data_hash (Transaction_init H ''c'' [] 3 ''TEST-001'')
              @ data_hash (Transaction_init H ''c'' [] 3 ''TEST-001'')))
     \<and> merkle_root (Block_init H 1 1750400002000000 (replicate 64 CHR ''0'') ''TEST-001'' [])
         = H ''empty''"
proof
  fix H :: "string \<Rightarrow> string"
  show "merkle_root (Block_init H 1 1750400002000000 (replicate 64 CHR ''0'') ''TEST-001''
        [Transaction_init H ''a'' [] 1 ''TEST-001'',
         Transaction_init H ''b'' [] 2 ''TEST-001'',
         Transaction_init H ''c'' [] 3 ''TEST-001''])
     = H (H (data_hash (Transaction_init H ''a'' [] 1 ''TEST-001'')
              @ data_hash (Transaction_init H ''b'' [] 2 ''TEST-001''))
          @ H (data_hash (Transaction_init H ''c'' [] 3 ''TEST-001'')
              @ data_hash (Transaction_init H ''c'' [] 3 ''TEST-001'')))
     \<and> merkle_root (Block_init H 1 1750400002000000 (replicate 64 CHR ''0'') ''TEST-001'' [])
         = H ''empty''"
    using block_merkle_root
            [of H 1 1750400002000000 "replicate 64 CHR ''0''" "''TEST-001''"
                "[Transaction_init H ''a'' [] 1 ''TEST-001'',
                  Transaction_init H ''b'' [] 2 ''TEST-001'',
                  Transaction_init H ''c'' [] 3 ''TEST-001'']"]
    by simp
qed

section \<open>Integrity of a chain of honest blocks\<close>

lemma calculate_data_hash_update [simp]:
  "calculate_data_hash H (tx\<lparr>data_hash := h\<rparr>) = calculate_data_hash H tx"
  "calculate_data_hash H (tx\<lparr>signature := s\<rparr>) = calculate_data_hash H tx"
  by (simp_all add: calculate_data_hash_def)

lemma validate_Transaction_init: "validate_transaction H (Transaction_init H op d ts iid)"
  by (simp add: validate_transaction_def Transaction_init_def Let_def calculate_data_hash_def)

lemma calculate_hash_update [simp]:
  "calculate_hash H (b\<lparr>block_hash := h\<rparr>) = calculate_hash H b"
  by (simp add: calculate_hash_def)

lemma calculate_merkle_root_update [simp]:
  "calculate_merkle_root H (b\<lparr>block_hash := h\<rparr>) = calculate_merkle_root H b"
  "calculate_merkle_root H (b\<lparr>merkle_root := m\<rparr>) = calculate_merkle_root H b"
  by (simp_all add: calculate_merkle_root_def)

lemma Block_init_fields [simp]:
  "index (Block_init H i ts prev v txs) = i"
  "block_timestamp_micros (Block_init H i ts prev v txs) = ts"
  "previous_hash (Block_init H i ts prev v txs) = prev"
  "validator (Block_init H i ts prev v txs) = v"
  "transactions (Block_init H i ts prev v txs) = txs"
  "nonce (Block_init H i ts prev v txs) = 0"
  by (simp_all add: Block_init_def Let_def)

lemma Block_init_hashes [simp]:
  "block_hash (Block_init H i ts prev v txs) = calculate_hash H (Block_init H i ts prev v txs)"
  "merkle_root (Block_init H i ts prev v txs)
     = calculate_merkle_root H (Block_init H i ts prev v txs)"
  by (simp_all add: Block_init_def Let_def calculate_hash_def calculate_merkle_root_def)

lemma ledger_ok_init: "ledger_ok H (Blockchain_init H iid url gv now)"
  by (simp add: ledger_ok_def Blockchain_init_def create_genesis_block_def Let_def)

lemma list_all_take: "list_all P xs \<Longrightarrow> list_all P (take n xs)"
  by (simp add: list_all_iff) (meson in_set_takeD)

lemma list_all_drop: "list_all P xs \<Longrightarrow> list_all P (drop n xs)"
  by (simp add: list_all_iff) (meson in_set_dropD)

lemma list_all_remove_first: "list_all P xs \<Longrightarrow> list_all P (remove_first Q xs)"
  by (induction xs) auto

lemma remove_from_pool_frame [simp]:
  "chain (remove_from_pool bc tx) = chain bc"
  "bc_instance_id (remove_from_pool bc tx) = bc_instance_id bc"
  by (simp_all add: remove_from_pool_def)

lemma remove_from_pool_pending:
  "list_all P (pending_transactions bc) \<Longrightarrow>
   list_all P (pending_transactions (remove_from_pool bc tx))"
  by (simp add: remove_from_pool_def list_all_remove_first)

lemma foldl_remove_from_pool_chain [simp]:
  "chain (foldl remove_from_pool bc txs) = chain bc"
  by (induction txs arbitrary: bc) simp_all

lemma foldl_remove_from_pool_pending:
  "list_all P (pending_transactions bc) \<Longrightarrow>
   list_all P (pending_transactions (foldl remove_from_pool bc txs))"
  by (induction txs arbitrary: bc) (simp_all add: remove_from_pool_pending)

lemma append_block_ok:
  assumes "ledger_ok H bc"
  shows "fst (append_block H bc op d now now') = Inr True"
    and "ledger_ok H (snd (append_block H bc op d now now'))"
    and "length (chain (snd (append_block H bc op d now now'))) = Suc (length (chain bc))"
proof -
  let ?tx = "Transaction_init H op d now (bc_instance_id bc)"
  let ?bc1 = "bc\<lparr>transaction_pool := (transaction_pool bc)(tx_id ?tx \<mapsto> ?tx),
                pending_transactions := pending_transactions bc @ [?tx]\<rparr>"
  let ?txs = "take 10 (pending_transactions bc @ [?tx])"
  let ?bc2 = "?bc1\<lparr>pending_transactions := drop 10 (pending_transactions bc @ [?tx])\<rparr>"
  let ?b = "Block_init H (int (length (chain bc))) now' (block_hash (last (chain bc)))
              (bc_instance_id bc) ?txs"
  from assms have c: "chain bc \<noteq> []"
    and i: "index (last (chain bc)) = int (length (chain bc)) - 1"
    and p: "list_all (validate_transaction H) (pending_transactions bc)"
    by (simp_all add: ledger_ok_def)
  have ne: "?txs \<noteq> []" by simp
  have ct: "create_transaction H bc op d None now = (?tx, ?bc1)"
    by (simp add: create_transaction_def Let_def)
  have cb: "create_block H ?bc1 None None now' = (Inr ?b, ?bc2)"
    using c ne by (simp add: create_block_def Let_def del: take_eq_Nil)
  have pv: "list_all (validate_transaction H) (pending_transactions bc @ [?tx])"
    using p by (simp add: validate_Transaction_init)
  have tv: "list_all (validate_transaction H) ?txs"
    using pv by (rule list_all_take)
  have len0: "int (length (chain bc)) \<noteq> 0" using c by simp
  have vb: "validate_block H ?bc2 ?b = Inr True"
    using c i tv len0 by (simp add: validate_block_def Let_def del: take_append)
  have ab: "add_block H ?bc2 ?b
      = (Inr True, foldl remove_from_pool (?bc2\<lparr>chain := chain bc @ [?b]\<rparr>) ?txs)"
    using vb by (simp add: add_block_def del: take_append)
  have res: "append_block H bc op d now now'
      = (Inr True, foldl remove_from_pool (?bc2\<lparr>chain := chain bc @ [?b]\<rparr>) ?txs)"
    unfolding append_block_def ct using cb ab by (simp del: take_append)
  show "fst (append_block H bc op d now now') = Inr True"
    by (simp add: res del: take_append)
  show "length (chain (snd (append_block H bc op d now now'))) = Suc (length (chain bc))"
    by (simp add: res del: take_append)
  have "list_all (validate_transaction H)
          (pending_transactions (?bc2\<lparr>chain := chain bc @ [?b]\<rparr>))"
    using pv by (simp add: list_all_drop del: drop_append)
  then have "list_all (validate_transaction H)
          (pending_transactions (foldl remove_from_pool (?bc2\<lparr>chain := chain bc @ [?b]\<rparr>) ?txs))"
    by (rule foldl_remove_from_pool_pending)
  then show "ledger_ok H (snd (append_block H bc op d now now'))"
    by (simp add: res ledger_ok_def del: take_append drop_append)
qed


lemma append_blocks_ok:
  "ledger_ok H bc \<Longrightarrow>
   \<exists>bc'. append_blocks H bc ops = Inr (replicate (length ops) True, bc') \<and>
         ledger_ok H bc' \<and> length (chain bc') = length (chain bc) + length ops"
proof (induction ops arbitrary: bc)
  case Nil
  then show ?case by simp
next
  case (Cons x ops)
  obtain op d now now' where x: "x = (op, d, now, now')" by (cases x) auto
  let ?r = "append_block H bc op d now now'"
  have r: "?r = (Inr True, snd ?r)"
    using append_block_ok(1)[OF Cons.prems, of op d now now'] by (cases ?r) simp
  have ok: "ledger_ok H (snd ?r)" using Cons.prems by (rule append_block_ok(2))
  have len: "length (chain (snd ?r)) = Suc (length (chain bc))"
    using Cons.prems by (rule append_block_ok(3))
  from Cons.IH[OF ok] obtain bc' where
    bc': "append_blocks H (snd ?r) ops = Inr (replicate (length ops) True, bc')"
      "ledger_ok H bc'" "length (chain bc') = length (chain (snd ?r)) + length ops"
    by blast
  have "append_blocks H bc (x # ops) = Inr (replicate (length (x # ops)) True, bc')"
    unfolding x by (simp, subst r, simp add: bc'(1))
  with bc'(2,3) len show ?case by auto
qed

lemma validate_block_head:
  "chain bc \<noteq> [] \<Longrightarrow> index (last (chain bc)) \<noteq> 0 \<Longrightarrow>
   validate_block H bc (last (chain bc)) = Inr False"
  by (simp add: validate_block_def Let_def)

lemma validate_block_total:
  "chain bc \<noteq> [] \<Longrightarrow> \<exists>ok. validate_block H bc b = Inr ok"
proof -
  assume "chain bc \<noteq> []"
  then have "validate_block H bc b \<noteq> Inl e" for e
    by (simp add: validate_block_def Let_def)
  then show ?thesis by (cases "validate_block H bc b") auto
qed

lemma verify_loop_False:
  "chain bc \<noteq> [] \<Longrightarrow> b \<in> set blocks \<Longrightarrow> validate_block H bc b = Inr False \<Longrightarrow>
   verify_loop H bc i blocks = Inr False"
proof (induction blocks arbitrary: i)
  case Nil
  then show ?case by simp
next
  case (Cons x blocks)
  obtain ok where ok: "validate_block H bc x = Inr ok"
    using validate_block_total[OF Cons.prems(1)] by blast
  show ?case
  proof (cases "x = b")
    case True
    with Cons.prems show ?thesis by simp
  next
    case False
    with Cons.prems have "b \<in> set blocks" by simp
    from Cons.IH[OF Cons.prems(1) this Cons.prems(3)] ok show ?thesis by simp
  qed
qed

lemma verify_integrity_head_index:
  "chain bc \<noteq> [] \<Longrightarrow> index (last (chain bc)) \<noteq> 0 \<Longrightarrow> verify_integrity H bc = Inr False"
  unfolding verify_integrity_def
  by (rule verify_loop_False[where b = "last (chain bc)"])
     (simp_all add: validate_block_head)

text \<open>
  C1. The claim: after blocks are appended through \<open>add_block\<close>, \<open>verify_integrity\<close> is
  true. In the code \<^verbatim>\<open>verify_integrity\<close> hands every block to \<^verbatim>\<open>_validate_block\<close>, which
  compares it with the head \<^verbatim>\<open>self.chain[-1]\<close>, not with the block before it; the head's
  own index is never its index plus one. So on every chain built from the genesis block
  by one or more honest appends, each accepted by \<open>add_block\<close>, \<open>verify_integrity\<close>
  returns false.
\<close>

theorem verify_integrity_rejects_honest_chain:
  assumes "ops \<noteq> []"
  shows "\<exists>bc. append_blocks H (Blockchain_init H iid url gv now0) ops
                = Inr (replicate (length ops) True, bc)
              \<and> length (chain bc) = 1 + length ops
              \<and> verify_integrity H bc = Inr False"
proof -
  obtain bc where bc:
    "append_blocks H (Blockchain_init H iid url gv now0) ops
       = Inr (replicate (length ops) True, bc)"
    "ledger_ok H bc"
    "length (chain bc) = length (chain (Blockchain_init H iid url gv now0)) + length ops"
    using append_blocks_ok[OF ledger_ok_init] by blast
  have l: "length (chain bc) = 1 + length ops"
    using bc(3) by (simp add: Blockchain_init_def create_genesis_block_def Let_def)
  with assms have "length (chain bc) \<noteq> 1" by simp
  with bc(2) have "chain bc \<noteq> []" "index (last (chain bc)) \<noteq> 0"
    by (auto simp: ledger_ok_def)
  then have "verify_integrity H bc = Inr False" by (rule verify_integrity_head_index)
  with bc(1) l show ?thesis by blast
qed


text \<open>The five appends of \<^verbatim>\<open>test_blockchain_integrity_verification\<close>.\<close>

theorem verify_integrity_rejects_honest_chain_witness:
  "\<forall>H.
     [(''test_op'', [(''index'', JInt 0)], 1750400000000001 :: int, 1750400000000002 :: int),
      (''test_op'', [(''index'', JInt 1)], 1750400000000003, 1750400000000004),
      (''test_op'', [(''index'', JInt 2)], 1750400000000005, 1750400000000006),
      (''test_op'', [(''index'', JInt 3)], 1750400000000007, 1750400000000008),
      (''test_op'', [(''index'', JInt 4)], 1750400000000009, 1750400000000010)] \<noteq> []
     \<and> (\<exists>bc. append_blocks H
                (Blockchain_init H ''TEST-001'' None ''GENESIS'' 1750400000000000)
                [(''test_op'', [(''index'', JInt 0)], 1750400000000001, 1750400000000002),
                 (''test_op'', [(''index'', JInt 1)], 1750400000000003, 1750400000000004),
                 (''test_op'', [(''index'', JInt 2)], 1750400000000005, 1750400000000006),
                 (''test_op'', [(''index'', JInt 3)], 1750400000000007, 1750400000000008),
                 (''test_op'', [(''index'', JInt 4)], 1750400000000009, 1750400000000010)]
              = Inr ([True, True, True, True, True], bc)
            \<and> length (chain bc) = 6
            \<and> verify_integrity H bc = Inr False)"
proof
  fix H :: "string \<Rightarrow> string"
  let ?ops = "[(''test_op'', [(''index'', JInt 0)], 1750400000000001, 1750400000000002),
      (''test_op'', [(''index'', JInt 1)], 1750400000000003, 1750400000000004),
      (''test_op'', [(''index'', JInt 2)], 1750400000000005, 1750400000000006),
      (''test_op'', [(''index'', JInt 3)], 1750400000000007, 1750400000000008),
      (''test_op'', [(''index'', JInt 4)], 1750400000000009, 1750400000000010)]
      :: (string \<times> (string \<times> json) list \<times> int \<times> int) list"
  have ne: "?ops \<noteq> []" by simp
  have r: "replicate (length ?ops) True = [True, True, True, True, True]"
    by (simp add: numeral_eq_Suc)
  from verify_integrity_rejects_honest_chain
         [OF ne, of H "''TEST-001''" None "''GENESIS''" 1750400000000000]
  obtain bc where bc:
    "append_blocks H (Blockchain_init H ''TEST-001'' None ''GENESIS'' 1750400000000000) ?ops
       = Inr (replicate (length ?ops) True, bc)"
    "length (chain bc) = 1 + length ?ops"
    "verify_integrity H bc = Inr False"
    by blast
  have a: "append_blocks H (Blockchain_init H ''TEST-001'' None ''GENESIS'' 1750400000000000)
             ?ops = Inr ([True, True, True, True, True], bc)"
    using bc(1) unfolding r .
  have l: "length (chain bc) = 6" using bc(2) by simp
  show "?ops \<noteq> []
     \<and> (\<exists>bc. append_blocks H
                (Blockchain_init H ''TEST-001'' None ''GENESIS'' 1750400000000000) ?ops
              = Inr ([True, True, True, True, True], bc)
            \<and> length (chain bc) = 6
            \<and> verify_integrity H bc = Inr False)"
    using ne a l bc(3) by blast
qed

section \<open>Blocks that do not link to the head\<close>

lemma chain_Blockchain_init:
  "chain (Blockchain_init H iid url gv now)
     = [Block_init H 0 now (replicate 64 CHR ''0'') gv
          [Transaction_init H ''genesis''
             [(''message'', JStr ''MAGI Memory Blockchain Genesis'')] now gv]]"
  by (simp add: Blockchain_init_def create_genesis_block_def Let_def)

text \<open>
  A candidate whose index is not 0 and whose \<open>previous_hash\<close> differs from the head's
  \<open>block_hash\<close> is rejected: \<open>add_block\<close> returns false without raising and leaves the
  whole ledger (chain, pending list and pool) as it was.
\<close>

lemma add_block_rejects_bad_previous_hash:
  assumes "chain bc \<noteq> []"
      and "index block \<noteq> 0"
      and "previous_hash block \<noteq> block_hash (last (chain bc))"
  shows "add_block H bc block = (Inr False, bc)"
  using assms by (simp add: add_block_def validate_block_def Let_def)


lemma verify_loop_broken_link:
  assumes "chain bc \<noteq> []" and "0 < i + length pre"
      and "previous_hash b \<noteq> block_hash (chain bc ! (i + length pre - 1))"
  shows "verify_loop H bc i (pre @ b # post) = Inr False"
  using assms(2,3)
proof (induction pre arbitrary: i)
  case Nil
  then show ?case by simp
next
  case (Cons x pre)
  obtain ok where ok: "validate_block H bc x = Inr ok"
    using validate_block_total[OF assms(1)] by blast
  have "verify_loop H bc (Suc i) (pre @ b # post) = Inr False"
    using Cons.prems by (intro Cons.IH) simp_all
  with ok show ?case by auto
qed

text \<open>
  C2. The claim: a candidate whose \<open>previous_hash\<close> differs from the head's \<open>block_hash\<close>
  is rejected and nothing changes. The code does so when the candidate's index is not 0.
  For a candidate with index 0, \<^verbatim>\<open>_validate_block\<close> returns true before it checks
  anything (the guard written for the genesis block, which never passes through
  \<open>add_block\<close>): the candidate is accepted and appended whatever its \<open>previous_hash\<close>, and
  \<open>verify_integrity\<close>, which tells the genesis block by its position, then reports the
  chain broken.
\<close>

theorem add_block_previous_hash_check:
  assumes "chain bc \<noteq> []"
      and "previous_hash block \<noteq> block_hash (last (chain bc))"
  shows "(index block \<noteq> 0 \<longrightarrow> add_block H bc block = (Inr False, bc))
       \<and> (index block = 0 \<longrightarrow>
            fst (add_block H bc block) = Inr True
          \<and> chain (snd (add_block H bc block)) = chain bc @ [block]
          \<and> verify_integrity H (snd (add_block H bc block)) = Inr False)"
proof -
  let ?bc' = "snd (add_block H bc block)"
  have rej: "add_block H bc block = (Inr False, bc)" if "index block \<noteq> 0"
    using assms(1) that assms(2) by (rule add_block_rejects_bad_previous_hash)
  have acc: "fst (add_block H bc block) = Inr True
          \<and> chain ?bc' = chain bc @ [block]
          \<and> verify_integrity H ?bc' = Inr False" if z: "index block = 0"
  proof -
    have v: "validate_block H bc block = Inr True"
      using z by (simp add: validate_block_def)
    then have r: "add_block H bc block
        = (Inr True, foldl remove_from_pool (bc\<lparr>chain := chain bc @ [block]\<rparr>)
                       (transactions block))"
      by (simp add: add_block_def)
    have c: "chain ?bc' = chain bc @ [block]" by (simp add: r)
    have "chain ?bc' ! (0 + length (chain bc) - 1) = last (chain bc)"
      using assms(1) by (simp add: c nth_append last_conv_nth)
    with assms(2)
    have "previous_hash block \<noteq> block_hash (chain ?bc' ! (0 + length (chain bc) - 1))"
      by simp
    moreover have "chain ?bc' \<noteq> []" by (simp add: c)
    moreover have "0 < 0 + length (chain bc)" using assms(1) by simp
    ultimately have "verify_loop H ?bc' 0 (chain bc @ block # []) = Inr False"
      by (intro verify_loop_broken_link)
    then have "verify_integrity H ?bc' = Inr False" by (simp add: verify_integrity_def c)
    with r c show ?thesis by simp
  qed
  from rej acc show ?thesis by blast
qed

text \<open>
  On the ledger of a new node, two blocks that name another predecessor than the head:
  the one with index 1 is rejected and the ledger is as before; the one with index 0 is
  appended, and the chain of two blocks no longer verifies.
\<close>

theorem add_block_previous_hash_check_witness:
  "\<forall>H.
     chain (Blockchain_init H ''TEST-001'' None ''GENESIS'' 1750400000000000) \<noteq> []
     \<and> previous_hash (Block_init H 1 1750400001000000
          (CHR ''x'' # block_hash (last (chain
             (Blockchain_init H ''TEST-001'' None ''GENESIS'' 1750400000000000))))
          ''TEST-001'' [])
        \<noteq> block_hash (last (chain
             (Blockchain_init H ''TEST-001'' None ''GENESIS'' 1750400000000000)))
     \<and> index (Block_init H 1 1750400001000000
          (CHR ''x'' # block_hash (last (chain
             (Blockchain_init H ''TEST-001'' None ''GENESIS'' 1750400000000000))))
          ''TEST-001'' []) \<noteq> 0
     \<and> add_block H (Blockchain_init H ''TEST-001'' None ''GENESIS'' 1750400000000000)
         (Block_init H 1 1750400001000000
          (CHR ''x'' # block_hash (last (chain
             (Blockchain_init H ''TEST-001'' None ''GENESIS'' 1750400000000000))))
          ''TEST-001'' [])
       = (Inr False, Blockchain_init H ''TEST-001'' None ''GENESIS'' 1750400000000000)
     \<and> previous_hash (Block_init H 0 1750400001000000
          (CHR ''x'' # block_hash (last (chain
             (Blockchain_init H ''TEST-001'' None ''GENESIS'' 1750400000000000))))
          ''TEST-001'' [])
        \<noteq> block_hash (last (chain
             (Blockchain_init H ''TEST-001'' None ''GENESIS'' 1750400000000000)))
     \<and> index (Block_init H 0 1750400001000000
          (CHR ''x'' # block_hash (last (chain
             (Blockchain_init H ''TEST-001'' None ''GENESIS'' 1750400000000000))))
          ''TEST-001'' []) = 0
     \<and> fst (add_block H (Blockchain_init H ''TEST-001'' None ''GENESIS'' 1750400000000000)
         (Block_init H 0 1750400001000000
          (CHR ''x'' # block_hash (last (chain
             (Blockchain_init H ''TEST-001'' None ''GENESIS'' 1750400000000000))))
          ''TEST-001'' [])) = Inr True
     \<and> length (chain (snd
         (add_block H (Blockchain_init H ''TEST-001'' None ''GENESIS'' 1750400000000000)
         (Block_init H 0 1750400001000000
          (CHR ''x'' # block_hash (last (chain
             (Blockchain_init H ''TEST-001'' None ''GENESIS'' 1750400000000000))))
          ''TEST-001'' [])))) = 2
     \<and> verify_integrity H (snd
         (add_block H (Blockchain_init H ''TEST-001'' None ''GENESIS'' 1750400000000000)
         (Block_init H 0 1750400001000000
          (CHR ''x'' # block_hash (last (chain
             (Blockchain_init H ''TEST-001'' None ''GENESIS'' 1750400000000000))))
          ''TEST-001'' []))) = Inr False"
proof
  fix H :: "string \<Rightarrow> string"
  let ?bc = "Blockchain_init H ''TEST-001'' None ''GENESIS'' 1750400000000000"
  let ?b1 = "Block_init H 1 1750400001000000 (CHR ''x'' # block_hash (last (chain ?bc)))
              ''TEST-001'' []"
  let ?b0 = "Block_init H 0 1750400001000000 (CHR ''x'' # block_hash (last (chain ?bc)))
              ''TEST-001'' []"
  have 1: "chain ?bc \<noteq> []" by (simp add: chain_Blockchain_init)
  have 2: "previous_hash ?b1 \<noteq> block_hash (last (chain ?bc))" by simp
  have 3: "index ?b1 \<noteq> 0" by simp
  have 4: "previous_hash ?b0 \<noteq> block_hash (last (chain ?bc))" by simp
  have 5: "index ?b0 = 0" by simp
  have 6: "length (chain ?bc) = 1" by (simp add: chain_Blockchain_init)
  note t1 = add_block_previous_hash_check[OF 1 2, of H]
  note t0 = add_block_previous_hash_check[OF 1 4, of H]
  from t1 3 have 7: "add_block H ?bc ?b1 = (Inr False, ?bc)" by blast
  from t0 5 have 8: "fst (add_block H ?bc ?b0) = Inr True"
    and 9: "chain (snd (add_block H ?bc ?b0)) = chain ?bc @ [?b0]"
    and 10: "verify_integrity H (snd (add_block H ?bc ?b0)) = Inr False" by blast+
  from 9 6 have 11: "length (chain (snd (add_block H ?bc ?b0))) = 2" by simp
  show "chain ?bc \<noteq> []
      \<and> previous_hash ?b1 \<noteq> block_hash (last (chain ?bc))
      \<and> index ?b1 \<noteq> 0
      \<and> add_block H ?bc ?b1 = (Inr False, ?bc)
      \<and> previous_hash ?b0 \<noteq> block_hash (last (chain ?bc))
      \<and> index ?b0 = 0
      \<and> fst (add_block H ?bc ?b0) = Inr True
      \<and> length (chain (snd (add_block H ?bc ?b0))) = 2
      \<and> verify_integrity H (snd (add_block H ?bc ?b0)) = Inr False"
    using 1 2 3 4 5 7 8 10 11 by blast
qed

section \<open>Round-robin rotation\<close>

lemma advance_fields [simp]:
  "validators (advance poa) = validators poa"
  "blockchain (advance poa) = blockchain poa"
  "block_time (advance poa) = block_time poa"
  "current_validator_index (advance poa) = current_validator_index poa + 1"
  by (simp_all add: advance_def)

lemma advance_funpow [simp]:
  "validators ((advance ^^ k) poa) = validators poa"
  "current_validator_index ((advance ^^ k) poa) = current_validator_index poa + int k"
  by (induction k) simp_all

lemma active_validators_funpow [simp]:
  "active_validators ((advance ^^ k) poa) = active_validators poa"
  by (simp add: active_validators_def)

lemma keys_are_ids:
  "list_all (\<lambda>(k, v). v_instance_id v = k) vs \<Longrightarrow> map v_instance_id (map snd vs) = map fst vs"
  by (induction vs) auto

lemma distinct_active:
  assumes "registry_ok poa"
  shows "distinct (map v_instance_id (active_validators poa))"
proof -
  from assms have "distinct (map v_instance_id (map snd (validators poa)))"
    by (simp add: registry_ok_def keys_are_ids del: map_map)
  then show ?thesis
    unfolding active_validators_def by (rule distinct_map_filter)
qed

lemma rotation_period:
  assumes "length (active_validators poa) = n" and "n > 0"
  shows "get_current_validator ((advance ^^ n) poa) = get_current_validator poa"
  using assms by (simp add: get_current_validator_def Let_def)

lemma rotation_not_earlier:
  assumes ok: "registry_ok poa"
      and n: "length (active_validators poa) = n"
      and k: "0 < k" "k < n"
  shows "get_current_validator ((advance ^^ k) poa) \<noteq> get_current_validator poa"
proof -
  let ?act = "active_validators poa"
  let ?i = "current_validator_index poa"
  have pos: "0 < int n" using k by simp
  have d: "distinct ?act" using distinct_active[OF ok] by (simp add: distinct_map)
  have ne: "?act \<noteq> []" using n k by auto
  have lt1: "nat ((?i + int k) mod int n) < length ?act"
    using n pos by (simp add: nat_less_iff)
  have lt2: "nat (?i mod int n) < length ?act"
    using n pos by (simp add: nat_less_iff)
  have "(?i + int k) mod int n \<noteq> ?i mod int n"
  proof
    assume "(?i + int k) mod int n = ?i mod int n"
    then have "(?i + int k - ?i) mod int n = 0"
      by (metis cancel_comm_monoid_add_class.diff_cancel mod_0 mod_diff_cong)
    then have "int k mod int n = 0" by simp
    with k show False by (simp add: zmod_int flip: of_nat_mod)
  qed
  then have "nat ((?i + int k) mod int n) \<noteq> nat (?i mod int n)"
    using pos by (simp add: nat_eq_iff)
  then have "?act ! nat ((?i + int k) mod int n) \<noteq> ?act ! nat (?i mod int n)"
    using d lt1 lt2 by (simp add: nth_eq_iff_index_eq)
  then show ?thesis
    using ne n by (simp add: get_current_validator_def Let_def)
qed


lemma filter_id_absent:
  "iid \<notin> set (map fst vs) \<Longrightarrow> list_all (\<lambda>(k, v). v_instance_id v = k) vs \<Longrightarrow>
   filter (\<lambda>v. is_active v \<and> v_instance_id v \<noteq> iid) (map snd vs)
     = filter is_active (map snd vs)"
  by (induction vs) auto

lemma active_after_deactivation:
  "distinct (map fst vs) \<Longrightarrow> list_all (\<lambda>(k, v). v_instance_id v = k) vs \<Longrightarrow>
   filter is_active (map snd (AList.map_entry iid (\<lambda>v. v\<lparr>is_active := False\<rparr>) vs))
     = filter (\<lambda>v. is_active v \<and> v_instance_id v \<noteq> iid) (map snd vs)"
proof (induction vs)
  case Nil
  show ?case by simp
next
  case (Cons x vs)
  obtain k v where x: "x = (k, v)" by (cases x)
  show ?case
  proof (cases "k = iid")
    case True
    with Cons.prems x have "iid \<notin> set (map fst vs)"
      and "list_all (\<lambda>(k, v). v_instance_id v = k) vs" and "v_instance_id v = iid"
      by auto
    then show ?thesis using True x by (simp add: filter_id_absent)
  next
    case False
    with Cons x show ?thesis by auto
  qed
qed

lemma map_of_map_entry_same:
  "map_of vs k = Some v \<Longrightarrow> map_of (AList.map_entry k f vs) k = Some (f v)"
  by (induction vs) (auto split: if_splits)

lemma map_entry_keys: "map fst (AList.map_entry k f vs) = map fst vs"
  by (induction vs) auto

lemma map_entry_same:
  "map_of vs k = Some v \<Longrightarrow> f v = v \<Longrightarrow> AList.map_entry k f vs = vs"
  by (induction vs) (auto split: if_splits)

lemma map_entry_twice:
  "AList.map_entry k f (AList.map_entry k g vs) = AList.map_entry k (f \<circ> g) vs"
  by (induction vs) auto

lemma registry_ok_add_validator:
  "registry_ok poa \<Longrightarrow> registry_ok (snd (add_validator poa v))"
  by (auto simp: registry_ok_def add_validator_def)

lemma registry_ok_remove_validator:
  "registry_ok poa \<Longrightarrow> registry_ok (snd (remove_validator poa iid))"
proof -
  have "list_all (\<lambda>(k, v). v_instance_id v = k) vs \<Longrightarrow>
        list_all (\<lambda>(k, v). v_instance_id v = k)
          (AList.map_entry iid (\<lambda>v. v\<lparr>is_active := False\<rparr>) vs)" for vs
    by (induction vs) auto
  then show "registry_ok poa \<Longrightarrow> registry_ok (snd (remove_validator poa iid))"
    by (auto simp add: registry_ok_def remove_validator_def map_entry_keys)
qed

lemma registry_ok_init: "registry_ok (ProofOfAuthority_init bc bt vs_arg)"
proof -
  have "registry_ok poa \<Longrightarrow> registry_ok (foldl (\<lambda>poa v. snd (add_validator poa v)) poa vs)"
    for poa vs
    by (induction vs arbitrary: poa) (simp_all add: registry_ok_add_validator)
  moreover have "registry_ok
     \<lparr>blockchain = bc, block_time = bt, validators = [], current_validator_index = 0\<rparr>"
    by (simp add: registry_ok_def)
  ultimately show ?thesis unfolding ProofOfAuthority_init_def by blast
qed

text \<open>
  C6. With exactly four active validators, four advances of the pointer bring
  \<open>get_current_validator\<close> back to the validator whose turn it was, and one, two or
  three advances do not. Deactivating an active validator with \<open>remove_validator\<close>
  takes exactly it out of the active rotation and leaves it in the registry, under the
  same key and at the same position; setting it active again gives back the consensus
  state from before the deactivation, so it is again in the rotation at its original
  position.
\<close>

theorem round_robin_rotation:
  assumes ok: "registry_ok poa"
      and four: "length (active_validators poa) = 4"
      and v: "map_of (validators poa) iid = Some v"
      and act: "is_active v"
  shows "get_current_validator ((advance ^^ 4) poa) = get_current_validator poa
       \<and> get_current_validator ((advance ^^ 1) poa) \<noteq> get_current_validator poa
       \<and> get_current_validator ((advance ^^ 2) poa) \<noteq> get_current_validator poa
       \<and> get_current_validator ((advance ^^ 3) poa) \<noteq> get_current_validator poa
       \<and> fst (remove_validator poa iid) = True
       \<and> active_validators (snd (remove_validator poa iid))
           = filter (\<lambda>v. v_instance_id v \<noteq> iid) (active_validators poa)
       \<and> length (active_validators (snd (remove_validator poa iid))) = 3
       \<and> map fst (validators (snd (remove_validator poa iid))) = map fst (validators poa)
       \<and> map_of (validators (snd (remove_validator poa iid))) iid
           = Some (v\<lparr>is_active := False\<rparr>)
       \<and> set_is_active (snd (remove_validator poa iid)) iid True = Inr poa"
proof -
  let ?vs = "validators poa"
  let ?off = "AList.map_entry iid (\<lambda>v. v\<lparr>is_active := False\<rparr>) ?vs"
  have mem: "iid \<in> set (map fst ?vs)"
    using v by (metis map_of_eq_None_iff option.distinct(1) set_map)
  have rem: "remove_validator poa iid = (True, poa\<lparr>validators := ?off\<rparr>)"
    using mem by (simp add: remove_validator_def)
  have d: "distinct (map fst ?vs)" and ids: "list_all (\<lambda>(k, v). v_instance_id v = k) ?vs"
    using ok by (simp_all add: registry_ok_def)
  have a: "active_validators (poa\<lparr>validators := ?off\<rparr>)
      = filter (\<lambda>v. v_instance_id v \<noteq> iid) (active_validators poa)"
    using active_after_deactivation[OF d ids] by (simp add: active_validators_def)
  have vin: "v \<in> set (active_validators poa)"
    using v act by (auto simp: active_validators_def dest: map_of_SomeD intro: rev_image_eqI)
  have vid: "v_instance_id v = iid"
    using v ids by (auto simp: list_all_iff dest: map_of_SomeD)
  have dact: "distinct (map v_instance_id (active_validators poa))"
    using ok by (rule distinct_active)
  have "filter (\<lambda>i. i \<noteq> iid) (map v_instance_id (active_validators poa))
      = remove1 iid (map v_instance_id (active_validators poa))"
    using dact by (simp add: distinct_remove1_removeAll removeAll_filter_not_eq)
       (metis (mono_tags, lifting) filter_cong)
  moreover have "iid \<in> set (map v_instance_id (active_validators poa))"
    using vin vid by force
  ultimately have "length (filter (\<lambda>i. i \<noteq> iid) (map v_instance_id (active_validators poa)))
      = 3"
    using four by (simp add: length_remove1)
  then have l3: "length (filter (\<lambda>v. v_instance_id v \<noteq> iid) (active_validators poa)) = 3"
    by (simp add: filter_map comp_def)
  have look: "map_of ?off iid = Some (v\<lparr>is_active := False\<rparr>)"
    using v by (rule map_of_map_entry_same)
  have restored: "AList.map_entry iid (\<lambda>v. v\<lparr>is_active := True\<rparr>) ?off = ?vs"
    using v act by (simp add: map_entry_twice comp_def map_entry_same)
  have re: "set_is_active (poa\<lparr>validators := ?off\<rparr>) iid True = Inr poa"
    using mem by (simp add: set_is_active_def map_entry_keys restored)
  have p4: "get_current_validator ((advance ^^ 4) poa) = get_current_validator poa"
    using four by (intro rotation_period) simp_all
  have n1: "get_current_validator ((advance ^^ 1) poa) \<noteq> get_current_validator poa"
    by (rule rotation_not_earlier[OF ok four]) simp_all
  have n2: "get_current_validator ((advance ^^ 2) poa) \<noteq> get_current_validator poa"
    by (rule rotation_not_earlier[OF ok four]) simp_all
  have n3: "get_current_validator ((advance ^^ 3) poa) \<noteq> get_current_validator poa"
    by (rule rotation_not_earlier[OF ok four]) simp_all
  show ?thesis
    unfolding rem using p4 n1 n2 n3 a l3 look re by (simp add: map_entry_keys)
qed


lemma validators_default:
  "validators (ProofOfAuthority_init bc bt None)
     = map (\<lambda>v. (v_instance_id v, v)) default_validators"
  by (simp add: ProofOfAuthority_init_def add_validator_def default_validators_def)

text \<open>The four default validators, Caspar deactivated and reactivated.\<close>

theorem round_robin_rotation_witness:
  "\<forall>bc.
     registry_ok (ProofOfAuthority_init bc 1000 None)
     \<and> length (active_validators (ProofOfAuthority_init bc 1000 None)) = 4
     \<and> map_of (validators (ProofOfAuthority_init bc 1000 None)) ''Caspar-001''
         = Some (default_validators ! 2)
     \<and> is_active (default_validators ! 2)
     \<and> get_current_validator ((advance ^^ 4) (ProofOfAuthority_init bc 1000 None))
         = get_current_validator (ProofOfAuthority_init bc 1000 None)
     \<and> get_current_validator ((advance ^^ 1) (ProofOfAuthority_init bc 1000 None))
         \<noteq> get_current_validator (ProofOfAuthority_init bc 1000 None)
     \<and> map v_instance_id (active_validators
           (snd (remove_validator (ProofOfAuthority_init bc 1000 None) ''Caspar-001'')))
         = [''Melchior-001'', ''Balthasar-001'', ''NAS-001'']
     \<and> map fst (validators
           (snd (remove_validator (ProofOfAuthority_init bc 1000 None) ''Caspar-001'')))
         = [''Melchior-001'', ''Balthasar-001'', ''Caspar-001'', ''NAS-001'']
     \<and> set_is_active
           (snd (remove_validator (ProofOfAuthority_init bc 1000 None) ''Caspar-001''))
           ''Caspar-001'' True
         = Inr (ProofOfAuthority_init bc 1000 None)"
proof
  fix bc :: Blockchain
  let ?poa = "ProofOfAuthority_init bc 1000 None"
  have h1: "registry_ok ?poa" by (rule registry_ok_init)
  have h2: "length (active_validators ?poa) = 4"
    by (simp add: active_validators_def validators_default default_validators_def)
  have h3: "map_of (validators ?poa) ''Caspar-001'' = Some (default_validators ! 2)"
    by (simp add: validators_default default_validators_def)
  have h4: "is_active (default_validators ! 2)"
    by (simp add: default_validators_def)
  have act: "map v_instance_id (filter (\<lambda>v. v_instance_id v \<noteq> ''Caspar-001'')
               (active_validators ?poa))
             = [''Melchior-001'', ''Balthasar-001'', ''NAS-001'']"
    by (simp add: active_validators_def validators_default default_validators_def)
  have keys: "map fst (validators ?poa)
      = [''Melchior-001'', ''Balthasar-001'', ''Caspar-001'', ''NAS-001'']"
    by (simp add: validators_default default_validators_def)
  show "registry_ok ?poa
     \<and> length (active_validators ?poa) = 4
     \<and> map_of (validators ?poa) ''Caspar-001'' = Some (default_validators ! 2)
     \<and> is_active (default_validators ! 2)
     \<and> get_current_validator ((advance ^^ 4) ?poa) = get_current_validator ?poa
     \<and> get_current_validator ((advance ^^ 1) ?poa) \<noteq> get_current_validator ?poa
     \<and> map v_instance_id (active_validators (snd (remove_validator ?poa ''Caspar-001'')))
         = [''Melchior-001'', ''Balthasar-001'', ''NAS-001'']
     \<and> map fst (validators (snd (remove_validator ?poa ''Caspar-001'')))
         = [''Melchior-001'', ''Balthasar-001'', ''Caspar-001'', ''NAS-001'']
     \<and> set_is_active (snd (remove_validator ?poa ''Caspar-001'')) ''Caspar-001'' True
         = Inr ?poa"
    using h1 h2 h3 h4 act keys round_robin_rotation[OF h1 h2 h3 h4] by metis
qed

section \<open>The effect of creating a block under Proof of Authority\<close>

lemma create_block_pending:
  "create_block H bc None v now = (Inr block, bc') \<Longrightarrow>
   bc' = bc\<lparr>pending_transactions := drop 10 (pending_transactions bc)\<rparr> \<and>
   transactions block = take 10 (pending_transactions bc) \<and>
   transactions block \<noteq> [] \<and>
   block_timestamp_micros block = now \<and>
   index block = int (length (chain bc)) \<and>
   previous_hash block = block_hash (last (chain bc))"
  by (auto simp: create_block_def Let_def Block_init_def split: if_splits)

lemma map_of_map_entry_other:
  "j \<noteq> k \<Longrightarrow> map_of (AList.map_entry k f vs) j = map_of vs j"
  by (induction vs) auto

lemma poa_create_block_ledger:
  assumes "poa_create_block H poa iid now_s now = (Inr (Some block), poa')"
  shows "create_block H (blockchain poa) None (Some iid) now = (Inr block, blockchain poa')"
  using assms
  by (auto simp: poa_create_block_def split: if_splits option.splits sum.splits prod.splits)

text \<open>
  C10, as amended. When \<^verbatim>\<open>ProofOfAuthority.create_block\<close> returns a block, the consensus
  state after the call is the state before it with three changes only: the ledger's
  pending list has lost its first ten entries (all of them when there are fewer), which
  are the block's transactions; the registry entry of the creating validator has
  \<open>last_block_time\<close> set to the block's timestamp; and \<open>current_validator_index\<close> is one
  more. The chain (so its length) is as before: the block is not appended. The transaction
  pool is as before too, so a transaction of the block is in the pool after the call
  exactly when it was before it; all of them are when every pending transaction was in
  the pool before the call. No other validator, and no other field, changes.
\<close>

theorem poa_create_block_frame:
  assumes "poa_create_block H poa iid now_s now = (Inr (Some block), poa')"
  shows "poa' = poa\<lparr>blockchain := (blockchain poa)
                     \<lparr>pending_transactions := drop 10 (pending_transactions (blockchain poa))\<rparr>,
                   validators := AList.map_entry iid
                     (\<lambda>v. v\<lparr>last_block_time := Some (block_timestamp_micros block)\<rparr>)
                     (validators poa),
                   current_validator_index := current_validator_index poa + 1\<rparr>
       \<and> chain (blockchain poa') = chain (blockchain poa)
       \<and> length (chain (blockchain poa')) = length (chain (blockchain poa))
       \<and> transactions block = take 10 (pending_transactions (blockchain poa))
       \<and> transactions block \<noteq> []
       \<and> pending_transactions (blockchain poa')
           = drop 10 (pending_transactions (blockchain poa))
       \<and> transaction_pool (blockchain poa') = transaction_pool (blockchain poa)
       \<and> (pending_indexed (blockchain poa) \<longrightarrow>
            list_all (\<lambda>tx. transaction_pool (blockchain poa') (tx_id tx) \<noteq> None)
              (transactions block))
       \<and> (\<exists>v. map_of (validators poa) iid = Some v \<and>
                map_of (validators poa') iid
                  = Some (v\<lparr>last_block_time := Some (block_timestamp_micros block)\<rparr>))
       \<and> (\<forall>j. j \<noteq> iid \<longrightarrow> map_of (validators poa') j = map_of (validators poa) j)
       \<and> map fst (validators poa') = map fst (validators poa)
       \<and> current_validator_index poa' = current_validator_index poa + 1
       \<and> block_time poa' = block_time poa"
proof -
  from assms obtain v where v: "map_of (validators poa) iid = Some v"
    by (auto simp: poa_create_block_def split: if_splits option.splits)
  from assms obtain bc' where
    cb: "create_block H (blockchain poa) None (Some iid) now = (Inr block, bc')"
    and p: "poa' = poa\<lparr>blockchain := bc',
              validators := AList.map_entry iid
                (\<lambda>v. v\<lparr>last_block_time := Some (block_timestamp_micros block)\<rparr>)
                (validators poa),
              current_validator_index := current_validator_index poa + 1\<rparr>"
    by (auto simp: poa_create_block_def split: if_splits option.splits sum.splits prod.splits)
  note c = create_block_pending[OF cb]
  have keys: "map fst (AList.map_entry k f vs) = map fst vs" for k f and vs :: "(string \<times> Validator) list"
    by (induction vs) auto
  have ix: "list_all (\<lambda>tx. transaction_pool (blockchain poa') (tx_id tx) \<noteq> None)
              (transactions block)"
    if "pending_indexed (blockchain poa)"
  proof -
    from that have "list_all (\<lambda>tx. transaction_pool (blockchain poa) (tx_id tx) \<noteq> None)
        (take 10 (pending_transactions (blockchain poa)))"
      unfolding pending_indexed_def by (rule list_all_take)
    with c show ?thesis by (simp add: p)
  qed
  have rest: "poa' = poa\<lparr>blockchain := (blockchain poa)
                     \<lparr>pending_transactions := drop 10 (pending_transactions (blockchain poa))\<rparr>,
                   validators := AList.map_entry iid
                     (\<lambda>v. v\<lparr>last_block_time := Some (block_timestamp_micros block)\<rparr>)
                     (validators poa),
                   current_validator_index := current_validator_index poa + 1\<rparr>
       \<and> chain (blockchain poa') = chain (blockchain poa)
       \<and> length (chain (blockchain poa')) = length (chain (blockchain poa))
       \<and> transactions block = take 10 (pending_transactions (blockchain poa))
       \<and> transactions block \<noteq> []
       \<and> pending_transactions (blockchain poa')
           = drop 10 (pending_transactions (blockchain poa))
       \<and> transaction_pool (blockchain poa') = transaction_pool (blockchain poa)"
    using c by (auto simp add: p)
  have vals: "(\<exists>v. map_of (validators poa) iid = Some v \<and>
                map_of (validators poa') iid
                  = Some (v\<lparr>last_block_time := Some (block_timestamp_micros block)\<rparr>))
       \<and> (\<forall>j. j \<noteq> iid \<longrightarrow> map_of (validators poa') j = map_of (validators poa) j)
       \<and> map fst (validators poa') = map fst (validators poa)
       \<and> current_validator_index poa' = current_validator_index poa + 1
       \<and> block_time poa' = block_time poa"
    using v by (simp add: p map_of_map_entry_same map_of_map_entry_other keys)
  from rest ix vals show ?thesis by blast
qed

text \<open>A validator that may create a block on a ledger with a head does get one.\<close>

lemma poa_create_block_succeeds:
  assumes "can_create_block poa iid now_s"
      and "map_of (validators poa) iid = Some v"
      and "is_active v"
      and "chain (blockchain poa) \<noteq> []"
  shows "\<exists>block poa'. poa_create_block H poa iid now_s now = (Inr (Some block), poa')"
proof -
  from assms(1) have "pending_transactions (blockchain poa) \<noteq> []"
    by (auto simp: can_create_block_def split: if_splits)
  then have "\<exists>block bc'. create_block H (blockchain poa) None (Some iid) now = (Inr block, bc')"
    using assms(4) by (simp add: create_block_def Let_def)
  then show ?thesis
    using assms(1-3) by (auto simp: poa_create_block_def)
qed

lemma ProofOfAuthority_init_fields [simp]:
  "blockchain (ProofOfAuthority_init bc bt vs) = bc"
  "block_time (ProofOfAuthority_init bc bt vs) = bt"
  "current_validator_index (ProofOfAuthority_init bc bt vs) = 0"
proof -
  have "blockchain (foldl (\<lambda>poa v. snd (add_validator poa v)) poa xs) = blockchain poa \<and>
        block_time (foldl (\<lambda>poa v. snd (add_validator poa v)) poa xs) = block_time poa \<and>
        current_validator_index (foldl (\<lambda>poa v. snd (add_validator poa v)) poa xs)
          = current_validator_index poa" for poa xs
    by (induction xs arbitrary: poa) (simp_all add: add_validator_def)
  then show "blockchain (ProofOfAuthority_init bc bt vs) = bc"
    "block_time (ProofOfAuthority_init bc bt vs) = bt"
    "current_validator_index (ProofOfAuthority_init bc bt vs) = 0"
    by (simp_all add: ProofOfAuthority_init_def)
qed

text \<open>
  Two readings of the clock. The genesis block is stamped \<open>1750400000000000\<close> and
  \<^verbatim>\<open>time.time()\<close> is \<open>1750400000.25\<close>: the interval is 250 ms. The head is stamped
  \<open>1750400000100000\<close> and \<^verbatim>\<open>time.time()\<close> is \<open>1750400000.5\<close>: the interval is 400 ms.
\<close>

lemma interval_250:
  "true_div 1750400000000000 1000 = Some (PyFloat 7169638400000000 (- 12))"
  "val (py_sub (py_mul (PyFloat 7001600001 (- 2)) (PyInt 1000))
          (PyFloat 7169638400000000 (- 12))) = 250"
  by (simp_all add: true_div_def float_mul_def float_sub_def round_to_53_def bitlen_nat.simps
      Let_def pow2_def)

lemma interval_400:
  "true_div 1750400000100000 1000 = Some (PyFloat 7169638400409600 (- 12))"
  "val (py_sub (py_mul (PyFloat 3500800001 (- 1)) (PyInt 1000))
          (PyFloat 7169638400409600 (- 12))) = 400"
  by (simp_all add: true_div_def float_mul_def float_sub_def round_to_53_def bitlen_nat.simps
      Let_def pow2_def)

text \<open>
  The setting of \<^verbatim>\<open>test_block_creation_authorization\<close>: one pending transaction, made by
  \<open>create_transaction\<close> and so in the pool, the default validators, \<open>block_time\<close> 100 ms
  and Melchior's turn, 250 ms after the genesis block.
\<close>

theorem poa_create_block_frame_witness:
  "\<forall>H. \<exists>block poa'.
     poa_create_block H
       (ProofOfAuthority_init
          (snd (create_transaction H
                 (Blockchain_init H ''Melchior-001'' None ''GENESIS'' 1750400000000000)
                 ''test'' [(''test'', JBool True)] None 1750400000000100))
          100 None)
       ''Melchior-001'' (PyFloat 7001600001 (- 2)) 1750400000250000
       = (Inr (Some block), poa')
     \<and> pending_indexed (snd (create_transaction H
                 (Blockchain_init H ''Melchior-001'' None ''GENESIS'' 1750400000000000)
                 ''test'' [(''test'', JBool True)] None 1750400000000100))
     \<and> length (chain (blockchain poa')) = 1
     \<and> length (transactions block) = 1
     \<and> pending_transactions (blockchain poa') = []
     \<and> transaction_pool (blockchain poa')
         = transaction_pool (snd (create_transaction H
                 (Blockchain_init H ''Melchior-001'' None ''GENESIS'' 1750400000000000)
                 ''test'' [(''test'', JBool True)] None 1750400000000100))
     \<and> list_all (\<lambda>tx. transaction_pool (blockchain poa') (tx_id tx) \<noteq> None)
          (transactions block)
     \<and> current_validator_index poa' = 1"
proof
  fix H :: "string \<Rightarrow> string"
  let ?bc0 = "Blockchain_init H ''Melchior-001'' None ''GENESIS'' 1750400000000000"
  let ?bc1 = "snd (create_transaction H ?bc0 ''test'' [(''test'', JBool True)] None
                 1750400000000100)"
  let ?poa = "ProofOfAuthority_init ?bc1 100 None"
  have ch: "chain ?bc1 = chain ?bc0"
    by (simp add: create_transaction_def Let_def)
  have ch0: "chain ?bc0 = [Block_init H 0 1750400000000000 (replicate 64 CHR ''0'') ''GENESIS''
          [Transaction_init H ''genesis''
             [(''message'', JStr ''MAGI Memory Blockchain Genesis'')] 1750400000000000
             ''GENESIS'']]"
    by (simp add: Blockchain_init_def create_genesis_block_def Let_def)
  have pe: "length (pending_transactions ?bc1) = 1"
    by (simp add: create_transaction_def Let_def Blockchain_init_def
        create_genesis_block_def)
  have pi: "pending_indexed ?bc1"
    by (simp add: pending_indexed_def create_transaction_def Let_def Blockchain_init_def
        create_genesis_block_def)
  have turn: "is_my_turn ?poa ''Melchior-001''"
    by (simp add: is_my_turn_def get_current_validator_def active_validators_def
        validators_default default_validators_def Let_def)
  have ts: "block_timestamp_micros (last (chain ?bc1)) = 1750400000000000"
    by (simp add: ch ch0 Block_init_def Let_def)
  have can: "can_create_block ?poa ''Melchior-001'' (PyFloat 7001600001 (- 2))"
    using turn pe
    by (simp add: can_create_block_def ts interval_250 del: py_sub.simps py_mul.simps val.simps)
  have v: "map_of (validators ?poa) ''Melchior-001'' = Some (default_validators ! 0)"
    by (simp add: validators_default default_validators_def)
  have a: "is_active (default_validators ! 0)"
    by (simp add: default_validators_def)
  have ne: "chain (blockchain ?poa) \<noteq> []"
    by (simp add: ch ch0)
  from poa_create_block_succeeds[OF can v a ne, of H 1750400000250000]
  obtain block poa' where r:
    "poa_create_block H ?poa ''Melchior-001'' (PyFloat 7001600001 (- 2)) 1750400000250000
       = (Inr (Some block), poa')"
    by blast
  note f = poa_create_block_frame[OF r]
  have 1: "length (chain (blockchain poa')) = 1" using f by (simp add: ch ch0)
  have 2: "length (transactions block) = 1" using f pe by simp
  have 3: "pending_transactions (blockchain poa') = []" using f pe by simp
  have 4: "transaction_pool (blockchain poa') = transaction_pool ?bc1" using f by simp
  have 5: "current_validator_index poa' = 1" using f by simp
  have pi': "pending_indexed (blockchain ?poa)" using pi by simp
  have 6: "list_all (\<lambda>tx. transaction_pool (blockchain poa') (tx_id tx) \<noteq> None)
             (transactions block)"
    using f pi' by blast
  show "\<exists>block poa'.
     poa_create_block H ?poa ''Melchior-001'' (PyFloat 7001600001 (- 2)) 1750400000250000
       = (Inr (Some block), poa')
     \<and> pending_indexed ?bc1
     \<and> length (chain (blockchain poa')) = 1
     \<and> length (transactions block) = 1
     \<and> pending_transactions (blockchain poa') = []
     \<and> transaction_pool (blockchain poa') = transaction_pool ?bc1
     \<and> list_all (\<lambda>tx. transaction_pool (blockchain poa') (tx_id tx) \<noteq> None)
          (transactions block)
     \<and> current_validator_index poa' = 1"
    using r pi 1 2 3 4 5 6 by blast
qed

text \<open>
  C10 as stated fails where a pending transaction is not in the pool, which \<open>add_block\<close>
  brings about. Melchior makes a transaction; a block of the peer NAS arrives that holds
  a signed copy of it (same \<open>tx_id\<close>, but the signature makes it unequal to the pending
  one). \<open>handle_new_block\<close> accepts the block: \<open>add_block\<close> pops the \<open>tx_id\<close> from the pool
  and, the copy not being in the pending list, leaves the pending transaction where it
  is. It is Melchior's turn again, 400 ms later: \<open>create_block\<close> returns a block with the
  pending transaction, which is in no pool.
\<close>

theorem poa_create_block_unindexed_counterexample:
  "\<forall>H.
     fst (handle_new_block H
       (ProofOfAuthority_init
          (snd (create_transaction H
                 (Blockchain_init H ''Melchior-001'' None ''GENESIS'' 1750400000000000)
                 ''test'' [(''test'', JBool True)] None 1750400000000100))
          100 None)
       (Block_init H 1 1750400000100000
          (block_hash (last (chain (Blockchain_init H ''Melchior-001'' None ''GENESIS''
                                      1750400000000000))))
          ''NAS-001''
          [sign H (Transaction_init H ''test'' [(''test'', JBool True)] 1750400000000100
                     ''Melchior-001'') ''nas-key''])) = Inr True
   \<and> (\<exists>block poa'.
       poa_create_block H
         (snd (handle_new_block H
           (ProofOfAuthority_init
              (snd (create_transaction H
                     (Blockchain_init H ''Melchior-001'' None ''GENESIS'' 1750400000000000)
                     ''test'' [(''test'', JBool True)] None 1750400000000100))
              100 None)
           (Block_init H 1 1750400000100000
              (block_hash (last (chain (Blockchain_init H ''Melchior-001'' None ''GENESIS''
                                          1750400000000000))))
              ''NAS-001''
              [sign H (Transaction_init H ''test'' [(''test'', JBool True)] 1750400000000100
                         ''Melchior-001'') ''nas-key''])))
         ''Melchior-001'' (PyFloat 3500800001 (- 1)) 1750400000500000
         = (Inr (Some block), poa')
       \<and> length (chain (blockchain poa')) = 2
       \<and> transactions block
           = [Transaction_init H ''test'' [(''test'', JBool True)] 1750400000000100
                ''Melchior-001'']
       \<and> pending_transactions (blockchain poa') = []
       \<and> transaction_pool (blockchain poa')
           (tx_id (Transaction_init H ''test'' [(''test'', JBool True)] 1750400000000100
                     ''Melchior-001'')) = None)"
proof
  fix H :: "string \<Rightarrow> string"
  let ?bc0 = "Blockchain_init H ''Melchior-001'' None ''GENESIS'' 1750400000000000"
  let ?tx = "Transaction_init H ''test'' [(''test'', JBool True)] 1750400000000100
               ''Melchior-001''"
  let ?bc1 = "snd (create_transaction H ?bc0 ''test'' [(''test'', JBool True)] None
                 1750400000000100)"
  let ?bc1' = "?bc0\<lparr>transaction_pool := (transaction_pool ?bc0)(tx_id ?tx \<mapsto> ?tx),
                    pending_transactions := [?tx]\<rparr>"
  let ?poa1 = "ProofOfAuthority_init ?bc1 100 None"
  let ?peer = "Block_init H 1 1750400000100000 (block_hash (last (chain ?bc0))) ''NAS-001''
                 [sign H ?tx ''nas-key'']"
  let ?poa2 = "snd (handle_new_block H ?poa1 ?peer)"
  let ?G = "Block_init H 0 1750400000000000 (replicate 64 CHR ''0'') ''GENESIS''
          [Transaction_init H ''genesis''
             [(''message'', JStr ''MAGI Memory Blockchain Genesis'')] 1750400000000000
             ''GENESIS'']"
  have ch0: "chain ?bc0 = [?G]"
    by (simp add: Blockchain_init_def create_genesis_block_def Let_def)
  have bc1: "?bc1 = ?bc1'"
    by (simp add: create_transaction_def Let_def Blockchain_init_def create_genesis_block_def)
  have ch1: "chain ?bc1' = [?G]"
    by (simp add: ch0)
  have sg: "signature ?tx = None" "tx_id (sign H ?tx ''nas-key'') = tx_id ?tx"
    by (simp_all add: Transaction_init_def sign_def Let_def)
  have neq: "\<not> tx_eq ?tx (sign H ?tx ''nas-key'')"
    using sg(1) by (simp add: tx_eq_def sign_def)
  have vt: "validate_transaction H (sign H ?tx ''nas-key'')"
    using validate_Transaction_init[of H "''test''" "[(''test'', JBool True)]"
        1750400000000100 "''Melchior-001''"]
    by (simp add: validate_transaction_def sign_def)
  have vb: "validate_block H ?bc1' ?peer = Inr True"
    using vt by (simp add: validate_block_def ch1 ch0 Let_def)
  have ab: "add_block H ?bc1' ?peer
      = (Inr True, ?bc0\<lparr>chain := chain ?bc0 @ [?peer],
                         transaction_pool := (transaction_pool ?bc0)(tx_id ?tx := None),
                         pending_transactions := [?tx]\<rparr>)"
    using neq by (simp add: add_block_def vb remove_from_pool_def sg(2))
  have va: "validate_block_authority ?poa1 ?peer"
    by (simp add: validate_block_authority_def validators_default default_validators_def)
  have hn: "handle_new_block H ?poa1 ?peer
      = (Inr True,
         ?poa1\<lparr>blockchain := ?bc0\<lparr>chain := chain ?bc0 @ [?peer],
                         transaction_pool := (transaction_pool ?bc0)(tx_id ?tx := None),
                         pending_transactions := [?tx]\<rparr>,
               validators := AList.map_entry ''NAS-001''
                 (\<lambda>v. v\<lparr>last_block_time := Some 1750400000100000\<rparr>)
                 (map (\<lambda>v. (v_instance_id v, v)) default_validators),
               current_validator_index := 4\<rparr>)"
    using va
    by (simp add: handle_new_block_def bc1 ab validators_default Let_def default_validators_def)
  have turn: "is_my_turn ?poa2 ''Melchior-001''"
    by (simp add: hn is_my_turn_def get_current_validator_def active_validators_def
        default_validators_def Let_def)
  have pend: "pending_transactions (blockchain ?poa2) = [?tx]"
    by (simp add: hn)
  have pool: "transaction_pool (blockchain ?poa2) (tx_id ?tx) = None"
    by (simp add: hn)
  have ch2: "chain (blockchain ?poa2) = chain ?bc0 @ [?peer]"
    by (simp add: hn)
  have can: "can_create_block ?poa2 ''Melchior-001'' (PyFloat 3500800001 (- 1))"
    using turn
    by (simp add: can_create_block_def interval_400 hn
        del: py_sub.simps py_mul.simps val.simps)
  have v: "map_of (validators ?poa2) ''Melchior-001'' = Some (default_validators ! 0)"
    by (simp add: hn default_validators_def)
  have a: "is_active (default_validators ! 0)"
    by (simp add: default_validators_def)
  have ne: "chain (blockchain ?poa2) \<noteq> []"
    by (simp add: ch2)
  from poa_create_block_succeeds[OF can v a ne, of H 1750400000500000]
  obtain block poa' where r:
    "poa_create_block H ?poa2 ''Melchior-001'' (PyFloat 3500800001 (- 1)) 1750400000500000
       = (Inr (Some block), poa')"
    by blast
  note c = create_block_pending[OF poa_create_block_ledger[OF r]]
  have 1: "length (chain (blockchain poa')) = 2" using c ch2 by (simp add: ch0)
  have 2: "transactions block = [?tx]" using c pend by simp
  have 3: "pending_transactions (blockchain poa') = []" using c pend by simp
  have 4: "transaction_pool (blockchain poa') (tx_id ?tx) = None" using c pool by simp
  have 0: "fst (handle_new_block H ?poa1 ?peer) = Inr True" by (simp add: hn)
  have "\<exists>block poa'.
       poa_create_block H ?poa2 ''Melchior-001'' (PyFloat 3500800001 (- 1)) 1750400000500000
         = (Inr (Some block), poa')
       \<and> length (chain (blockchain poa')) = 2
       \<and> transactions block = [?tx]
       \<and> pending_transactions (blockchain poa') = []
       \<and> transaction_pool (blockchain poa') (tx_id ?tx) = None"
    using r 1 2 3 4 by blast
  with 0 show "fst (handle_new_block H ?poa1 ?peer) = Inr True
   \<and> (\<exists>block poa'.
       poa_create_block H ?poa2 ''Melchior-001'' (PyFloat 3500800001 (- 1)) 1750400000500000
         = (Inr (Some block), poa')
       \<and> length (chain (blockchain poa')) = 2
       \<and> transactions block = [?tx]
       \<and> pending_transactions (blockchain poa') = []
       \<and> transaction_pool (blockchain poa') (tx_id ?tx) = None)"
    by blast
qed

section \<open>Unknown contract functions\<close>

text \<open>
  C7. For each of the three contracts, \<open>execute\<close> with a function name outside the
  contract's set raises \<open>ValueError "Unknown function: <name>"\<close>, whatever the
  parameters and the caller: the result is the exception, not a result dictionary. With a
  name of the set it returns a dictionary and does not raise.
\<close>

theorem execute_unknown_function_raises:
  "(function \<notin> {''acquire_lock'', ''release_lock'', ''check_lock'', ''extend_lock''} \<longrightarrow>
      MemoryLockContract_execute lc function lp caller now
        = Inl (ValueError (''Unknown function: '' @ function)))
   \<and> (function \<notin> {''request_resources'', ''release_resources'', ''get_allocation'',
                    ''get_usage''} \<longrightarrow>
      ResourceAllocationContract_execute rc function rp caller now
        = Inl (ValueError (''Unknown function: '' @ function)))
   \<and> (function \<notin> {''register_workflow'', ''trigger_workflow'', ''get_execution_status''} \<longrightarrow>
      WorkflowAutomationContract_execute wc function wp caller now now'
        = Inl (ValueError (''Unknown function: '' @ function)))
   \<and> (function \<in> {''acquire_lock'', ''release_lock'', ''check_lock'', ''extend_lock''} \<longrightarrow>
      (\<exists>r. MemoryLockContract_execute lc function lp caller now = Inr r))
   \<and> (function \<in> {''request_resources'', ''release_resources'', ''get_allocation'',
                    ''get_usage''} \<longrightarrow>
      (\<exists>r. ResourceAllocationContract_execute rc function rp caller now = Inr r))
   \<and> (function \<in> {''register_workflow'', ''trigger_workflow'', ''get_execution_status''} \<longrightarrow>
      (\<exists>r. WorkflowAutomationContract_execute wc function wp caller now now' = Inr r))"
  by (simp add: MemoryLockContract_execute_def ResourceAllocationContract_execute_def
      WorkflowAutomationContract_execute_def)

theorem execute_unknown_function_raises_witness:
  "''frobnicate'' \<notin> {''acquire_lock'', ''release_lock'', ''check_lock'', ''extend_lock''}
   \<and> ''frobnicate'' \<notin> {''request_resources'', ''release_resources'', ''get_allocation'',
                        ''get_usage''}
   \<and> ''frobnicate'' \<notin> {''register_workflow'', ''trigger_workflow'', ''get_execution_status''}
   \<and> MemoryLockContract_execute (MemoryLockContract_init ''lock-contract-1'' ''TEST-001'' 0)
         ''frobnicate''
         \<lparr>p_entity_name = Some ''TestEntity'', p_duration_ms = None, p_extension_ms = None,
          p_lock_duration_ms = None\<rparr> ''Instance-001'' 1000
       = Inl (ValueError ''Unknown function: frobnicate'')
   \<and> ResourceAllocationContract_execute
         (ResourceAllocationContract_init ''resource-contract-1'' ''TEST-001'' 0)
         ''frobnicate''
         \<lparr>p_cpu = Some (PyInt 50), p_memory = None, p_storage = None, p_instance_id = None\<rparr>
         ''Instance-001'' 1000
       = Inl (ValueError ''Unknown function: frobnicate'')
   \<and> WorkflowAutomationContract_execute
         (WorkflowAutomationContract_init ''workflow-contract-1'' ''TEST-001'' 0)
         ''frobnicate''
         \<lparr>p_workflow_id = Some ''backup-workflow'', p_steps = None, p_triggers = None,
          p_input_data = None, p_execution_id = None\<rparr> ''Instance-001'' 1000 1001
       = Inl (ValueError ''Unknown function: frobnicate'')
   \<and> (\<exists>r. MemoryLockContract_execute
              (MemoryLockContract_init ''lock-contract-1'' ''TEST-001'' 0) ''check_lock''
              \<lparr>p_entity_name = Some ''TestEntity'', p_duration_ms = None,
               p_extension_ms = None, p_lock_duration_ms = None\<rparr> ''Instance-001'' 1000
            = Inr r)"
  using execute_unknown_function_raises
          [of "''frobnicate''"
              "MemoryLockContract_init ''lock-contract-1'' ''TEST-001'' 0"
              "\<lparr>p_entity_name = Some ''TestEntity'', p_duration_ms = None,
                p_extension_ms = None, p_lock_duration_ms = None\<rparr>"
              "''Instance-001''" 1000
              "ResourceAllocationContract_init ''resource-contract-1'' ''TEST-001'' 0"
              "\<lparr>p_cpu = Some (PyInt 50), p_memory = None, p_storage = None, p_instance_id = None\<rparr>"
              "WorkflowAutomationContract_init ''workflow-contract-1'' ''TEST-001'' 0"
              "\<lparr>p_workflow_id = Some ''backup-workflow'', p_steps = None, p_triggers = None,
                p_input_data = None, p_execution_id = None\<rparr>" 1001]
        execute_unknown_function_raises
          [of "''check_lock''"
              "MemoryLockContract_init ''lock-contract-1'' ''TEST-001'' 0"
              "\<lparr>p_entity_name = Some ''TestEntity'', p_duration_ms = None,
                p_extension_ms = None, p_lock_duration_ms = None\<rparr>"
              "''Instance-001''" 1000]
  by simp

section \<open>The lock contract\<close>

text \<open>
  C8, as amended. For an entity name that is not empty: \<open>acquire_lock\<close> fails exactly when
  there is an entry for the entity whose \<open>expires\<close> is strictly later than now; it then
  returns that entry's holder and expiry and changes nothing. Otherwise it succeeds and
  installs \<open>holder = caller\<close>, \<open>acquired = now\<close>, \<open>expires = now + duration_ms * 1000\<close>.
  \<open>release_lock\<close> removes the entry when the caller is the entry's holder; in every
  other case it fails and leaves the contract as it was.
\<close>

theorem lock_acquire_release:
  assumes "p_entity_name params = Some en" and "en \<noteq> []"
  shows "(map_of (fst (acquire_lock c params caller now)) ''success'' = Some (JBool False)
            \<longleftrightarrow> (\<exists>lock. locks c en = Some lock \<and> now < expires lock))
       \<and> (\<forall>lock. locks c en = Some lock \<and> now < expires lock \<longrightarrow>
             acquire_lock c params caller now
               = ([(''success'', JBool False), (''error'', JStr ''Entity already locked''),
                   (''holder'', JStr (holder lock)), (''expires'', JInt (expires lock))], c))
       \<and> (\<not> (\<exists>lock. locks c en = Some lock \<and> now < expires lock) \<longrightarrow>
             acquire_lock c params caller now
               = ([(''success'', JBool True), (''entity_name'', JStr en),
                   (''holder'', JStr caller),
                   (''expires'', JInt (now + duration_of c params * 1000))],
                  c\<lparr>locks := (locks c)(en \<mapsto>
                       \<lparr>holder = caller, acquired = now,
                        expires = now + duration_of c params * 1000\<rparr>)\<rparr>))
       \<and> ((\<exists>lock. locks c en = Some lock \<and> holder lock = caller) \<longrightarrow>
             release_lock c params caller
               = ([(''success'', JBool True), (''entity_name'', JStr en)],
                  c\<lparr>locks := (locks c)(en := None)\<rparr>))
       \<and> (\<not> (\<exists>lock. locks c en = Some lock \<and> holder lock = caller) \<longrightarrow>
             map_of (fst (release_lock c params caller)) ''success'' = Some (JBool False)
             \<and> snd (release_lock c params caller) = c)"
  using assms
  by (auto simp: acquire_lock_def release_lock_def duration_of_def Let_def
           split: option.splits)


text \<open>The calls of \<^verbatim>\<open>test_acquire_and_release_lock\<close>.\<close>

theorem lock_acquire_release_witness:
  "p_entity_name \<lparr>p_entity_name = Some ''TestEntity'', p_duration_ms = None,
                   p_extension_ms = None, p_lock_duration_ms = None\<rparr> = Some ''TestEntity''
   \<and> ''TestEntity'' \<noteq> []
   \<and> acquire_lock (MemoryLockContract_init ''lock-contract-1'' ''TEST-001'' 0)
         \<lparr>p_entity_name = Some ''TestEntity'', p_duration_ms = Some 5000,
          p_extension_ms = None, p_lock_duration_ms = None\<rparr> ''Instance-001'' 1000
       = ([(''success'', JBool True), (''entity_name'', JStr ''TestEntity''),
           (''holder'', JStr ''Instance-001''), (''expires'', JInt 5001000)],
          (MemoryLockContract_init ''lock-contract-1'' ''TEST-001'' 0)
            \<lparr>locks := [''TestEntity'' \<mapsto>
               \<lparr>holder = ''Instance-001'', acquired = 1000, expires = 5001000\<rparr>]\<rparr>)
   \<and> acquire_lock
         ((MemoryLockContract_init ''lock-contract-1'' ''TEST-001'' 0)
            \<lparr>locks := [''TestEntity'' \<mapsto>
               \<lparr>holder = ''Instance-001'', acquired = 1000, expires = 5001000\<rparr>]\<rparr>)
         \<lparr>p_entity_name = Some ''TestEntity'', p_duration_ms = None,
          p_extension_ms = None, p_lock_duration_ms = None\<rparr> ''Instance-002'' 2000
       = ([(''success'', JBool False), (''error'', JStr ''Entity already locked''),
           (''holder'', JStr ''Instance-001''), (''expires'', JInt 5001000)],
          (MemoryLockContract_init ''lock-contract-1'' ''TEST-001'' 0)
            \<lparr>locks := [''TestEntity'' \<mapsto>
               \<lparr>holder = ''Instance-001'', acquired = 1000, expires = 5001000\<rparr>]\<rparr>)
   \<and> snd (release_lock
         ((MemoryLockContract_init ''lock-contract-1'' ''TEST-001'' 0)
            \<lparr>locks := [''TestEntity'' \<mapsto>
               \<lparr>holder = ''Instance-001'', acquired = 1000, expires = 5001000\<rparr>]\<rparr>)
         \<lparr>p_entity_name = Some ''TestEntity'', p_duration_ms = None,
          p_extension_ms = None, p_lock_duration_ms = None\<rparr> ''Instance-002'')
       = (MemoryLockContract_init ''lock-contract-1'' ''TEST-001'' 0)
            \<lparr>locks := [''TestEntity'' \<mapsto>
               \<lparr>holder = ''Instance-001'', acquired = 1000, expires = 5001000\<rparr>]\<rparr>
   \<and> release_lock
         ((MemoryLockContract_init ''lock-contract-1'' ''TEST-001'' 0)
            \<lparr>locks := [''TestEntity'' \<mapsto>
               \<lparr>holder = ''Instance-001'', acquired = 1000, expires = 5001000\<rparr>]\<rparr>)
         \<lparr>p_entity_name = Some ''TestEntity'', p_duration_ms = None,
          p_extension_ms = None, p_lock_duration_ms = None\<rparr> ''Instance-001''
       = ([(''success'', JBool True), (''entity_name'', JStr ''TestEntity'')],
          MemoryLockContract_init ''lock-contract-1'' ''TEST-001'' 0)"
proof -
  let ?c0 = "MemoryLockContract_init ''lock-contract-1'' ''TEST-001'' 0"
  let ?l = "\<lparr>holder = ''Instance-001'', acquired = 1000, expires = 5001000\<rparr>"
  let ?c1 = "?c0\<lparr>locks := [''TestEntity'' \<mapsto> ?l]\<rparr>"
  let ?p = "\<lparr>p_entity_name = Some ''TestEntity'', p_duration_ms = None,
             p_extension_ms = None, p_lock_duration_ms = None\<rparr>"
  let ?p5 = "\<lparr>p_entity_name = Some ''TestEntity'', p_duration_ms = Some 5000,
             p_extension_ms = None, p_lock_duration_ms = None\<rparr>"
  have n: "p_entity_name ?p = Some ''TestEntity''" "p_entity_name ?p5 = Some ''TestEntity''"
    and e: "''TestEntity'' \<noteq> []"
    by simp_all
  have l0: "locks ?c0 = Map.empty" by (simp add: MemoryLockContract_init_def)
  have l1: "locks ?c1 ''TestEntity'' = Some ?l" by simp
  have restored: "?c1\<lparr>locks := (locks ?c1)(''TestEntity'' := None)\<rparr> = ?c0"
    by (simp add: MemoryLockContract_init_def)
  show ?thesis
    using lock_acquire_release[OF n(2) e, of ?c0 "''Instance-001''" 1000]
          lock_acquire_release[OF n(1) e, of ?c1 "''Instance-002''" 2000]
          lock_acquire_release[OF n(1) e, of ?c1 "''Instance-001''" 2000]
    by (simp add: l0 duration_of_def MemoryLockContract_init_def)
qed

text \<open>
  C8 as stated fails for the empty entity name: \<^verbatim>\<open>if not entity_name\<close> rejects it, so
  \<open>acquire_lock\<close> fails although no entry exists, and installs nothing.
\<close>

theorem acquire_lock_empty_name_counterexample:
  "locks (MemoryLockContract_init ''lock-contract-1'' ''TEST-001'' 0) [] = None
   \<and> acquire_lock (MemoryLockContract_init ''lock-contract-1'' ''TEST-001'' 0)
         \<lparr>p_entity_name = Some [], p_duration_ms = Some 5000,
          p_extension_ms = None, p_lock_duration_ms = None\<rparr> ''Instance-001'' 1000
       = ([(''success'', JBool False), (''error'', JStr ''entity_name required'')],
          MemoryLockContract_init ''lock-contract-1'' ''TEST-001'' 0)"
  by (simp add: acquire_lock_def MemoryLockContract_init_def)

section \<open>The resource contract\<close>

lemma py_add_int:
  "is_py_int a \<Longrightarrow> is_py_int b \<Longrightarrow> is_py_int (py_add a b) \<and> val (py_add a b) = val a + val b"
  by (cases a; cases b) simp_all

lemma py_sub_int:
  "is_py_int a \<Longrightarrow> is_py_int b \<Longrightarrow> is_py_int (py_sub a b) \<and> val (py_sub a b) = val a - val b"
  by (cases a; cases b) simp_all

lemma sum_update_new:
  "map_of al k = None \<Longrightarrow>
   sum_list (map (\<lambda>(k, a). f a) (AList.update k v al)) = sum_list (map (\<lambda>(k, a). f a) al) + f v"
  for f :: "Allocation \<Rightarrow> rat"
  by (induction al) (auto split: if_splits)

lemma sum_update_old:
  "map_of al k = Some old \<Longrightarrow>
   sum_list (map (\<lambda>(k, a). f a) (AList.update k v al))
     = sum_list (map (\<lambda>(k, a). f a) al) - f old + f v"
  for f :: "Allocation \<Rightarrow> rat"
  by (induction al) (auto split: if_splits)

lemma delete_absent: "k \<notin> set (map fst al) \<Longrightarrow> AList.delete k al = al"
  by (induction al) auto

lemma sum_delete:
  "map_of al k = Some old \<Longrightarrow> distinct (map fst al) \<Longrightarrow>
   sum_list (map (\<lambda>(k, a). f a) (AList.delete k al)) = sum_list (map (\<lambda>(k, a). f a) al) - f old"
  for f :: "Allocation \<Rightarrow> rat"
  by (induction al) (auto split: if_splits simp: delete_absent)

lemma list_all_update:
  "list_all P al \<Longrightarrow> P (k, v) \<Longrightarrow> list_all P (AList.update k v al)"
  by (induction al) auto

lemma list_all_delete: "list_all P al \<Longrightarrow> list_all P (AList.delete k al)"
  by (induction al) auto

lemma list_all_lookup: "list_all P al \<Longrightarrow> map_of al k = Some old \<Longrightarrow> P (k, old)"
  by (induction al) (auto split: if_splits)

lemma sum_nonneg_allocs:
  "list_all (\<lambda>(k, a). 0 \<le> f a) al \<Longrightarrow> 0 \<le> sum_list (map (\<lambda>(k, a). f a) al)"
  for f :: "Allocation \<Rightarrow> rat"
  by (induction al) auto

lemma lookup_le_sum:
  "list_all (\<lambda>(k, a). 0 \<le> f a) al \<Longrightarrow> map_of al k = Some old \<Longrightarrow>
   f old \<le> sum_list (map (\<lambda>(k, a). f a) al)"
  for f :: "Allocation \<Rightarrow> rat"
proof (induction al)
  case Nil
  then show ?case by simp
next
  case (Cons x al)
  obtain k' a' where x: "x = (k', a')" by (cases x)
  from Cons.prems(1) x have "0 \<le> sum_list (map (\<lambda>(k, a). f a) al)"
    by (auto intro: sum_nonneg_allocs)
  with Cons x show ?case by (auto split: if_splits)
qed

lemma nonneg_split:
  "list_all (\<lambda>(k, a). 0 \<le> val (cpu a) \<and> 0 \<le> val (memory a) \<and> 0 \<le> val (storage a)) al \<Longrightarrow>
   list_all (\<lambda>(k, a). 0 \<le> val (cpu a)) al \<and> list_all (\<lambda>(k, a). 0 \<le> val (memory a)) al \<and>
   list_all (\<lambda>(k, a). 0 \<le> val (storage a)) al"
  by (induction al) auto

text \<open>What one successful request and one release do to a contract of integers.\<close>

lemma request_resources_rejected:
  assumes "py_gt (py_add (cpu (used c)) (get_or_zero (p_cpu params))) (total_cpu (limits c)) \<or>
      py_gt (py_add (memory (used c)) (get_or_zero (p_memory params))) (total_memory (limits c)) \<or>
      py_gt (py_add (storage (used c)) (get_or_zero (p_storage params)))
        (total_storage (limits c))"
  shows "snd (request_resources c params caller now) = c"
  using assms by (simp add: request_resources_def Let_def)

lemma request_resources_admitted:
  assumes "\<not> (py_gt (py_add (cpu (used c)) (get_or_zero (p_cpu params))) (total_cpu (limits c)) \<or>
      py_gt (py_add (memory (used c)) (get_or_zero (p_memory params))) (total_memory (limits c)) \<or>
      py_gt (py_add (storage (used c)) (get_or_zero (p_storage params)))
        (total_storage (limits c)))"
  shows "snd (request_resources c params caller now)
    = c\<lparr>allocations := AList.update caller
            \<lparr>cpu = get_or_zero (p_cpu params), memory = get_or_zero (p_memory params),
             storage = get_or_zero (p_storage params), allocated_at = now\<rparr> (allocations c),
         used := (case map_of (allocations c) caller of
             None \<Rightarrow> \<lparr>cpu = py_add (cpu (used c)) (get_or_zero (p_cpu params)),
                      memory = py_add (memory (used c)) (get_or_zero (p_memory params)),
                      storage = py_add (storage (used c)) (get_or_zero (p_storage params))\<rparr>
           | Some old \<Rightarrow>
               \<lparr>cpu = py_add (py_sub (cpu (used c)) (cpu old)) (get_or_zero (p_cpu params)),
                memory = py_add (py_sub (memory (used c)) (memory old))
                           (get_or_zero (p_memory params)),
                storage = py_add (py_sub (storage (used c)) (storage old))
                           (get_or_zero (p_storage params))\<rparr>)\<rparr>"
  using assms by (simp add: request_resources_def Let_def split: option.splits)

lemma request_resources_sum_inv:
  assumes inv: "sum_inv c" and ints: "integer_params params"
  shows "sum_inv (snd (request_resources c params caller now))"
proof (cases "py_gt (py_add (cpu (used c)) (get_or_zero (p_cpu params))) (total_cpu (limits c)) \<or>
      py_gt (py_add (memory (used c)) (get_or_zero (p_memory params))) (total_memory (limits c)) \<or>
      py_gt (py_add (storage (used c)) (get_or_zero (p_storage params)))
        (total_storage (limits c))")
  case True
  then show ?thesis using inv by (simp add: request_resources_rejected)
next
  case False
  note r = request_resources_admitted[OF False, of caller now]
  from inv have d: "distinct (map fst (allocations c))"
    and iu: "is_py_int (cpu (used c))" "is_py_int (memory (used c))" "is_py_int (storage (used c))"
    and ia: "list_all (\<lambda>(k, a). is_py_int (cpu a) \<and> is_py_int (memory a) \<and> is_py_int (storage a))
               (allocations c)"
    and su: "used_is_sum c"
    by (simp_all add: sum_inv_def integers_only_def)
  from ints have ip: "is_py_int (get_or_zero (p_cpu params))"
    "is_py_int (get_or_zero (p_memory params))" "is_py_int (get_or_zero (p_storage params))"
    by (simp_all add: integer_params_def)
  show ?thesis
  proof (cases "map_of (allocations c) caller")
    case None
    show ?thesis
      unfolding r using None d iu ia su ip
      by (simp add: sum_inv_def integers_only_def used_is_sum_def py_add_int
          sum_update_new list_all_update distinct_update)
  next
    case (Some old)
    have io: "is_py_int (cpu old)" "is_py_int (memory old)" "is_py_int (storage old)"
      using list_all_lookup[OF ia Some] by simp_all
    show ?thesis
      unfolding r using Some d iu ia su ip io
      by (simp add: sum_inv_def integers_only_def used_is_sum_def py_add_int py_sub_int
          sum_update_old list_all_update distinct_update)
  qed
qed

lemma release_resources_sum_inv:
  assumes inv: "sum_inv c"
  shows "sum_inv (snd (release_resources c params caller))"
proof (cases "map_of (allocations c) caller")
  case None
  with inv show ?thesis by (simp add: release_resources_def)
next
  case (Some old)
  from inv have d: "distinct (map fst (allocations c))"
    and iu: "is_py_int (cpu (used c))" "is_py_int (memory (used c))" "is_py_int (storage (used c))"
    and ia: "list_all (\<lambda>(k, a). is_py_int (cpu a) \<and> is_py_int (memory a) \<and> is_py_int (storage a))
               (allocations c)"
    and su: "used_is_sum c"
    by (simp_all add: sum_inv_def integers_only_def)
  have io: "is_py_int (cpu old)" "is_py_int (memory old)" "is_py_int (storage old)"
    using list_all_lookup[OF ia Some] by simp_all
  show ?thesis
    using Some d iu ia su io
    by (simp add: release_resources_def sum_inv_def integers_only_def used_is_sum_def
        py_sub_int sum_delete list_all_delete distinct_delete)
qed

lemma execute_sum_inv:
  assumes "sum_inv c"
      and "function = ''request_resources'' \<longrightarrow> integer_params params"
  shows "sum_inv
     (case ResourceAllocationContract_execute c function params caller now of
        Inl e \<Rightarrow> c | Inr (r, c') \<Rightarrow> c')"
proof -
  have "sum_inv (snd (get_allocation c params))"
    using assms(1) by (simp add: get_allocation_def split: option.splits)
  moreover have "sum_inv (snd (get_usage c))"
    using assms(1) by (simp add: get_usage_def)
  ultimately show ?thesis
    using assms request_resources_sum_inv[of c params caller now]
      release_resources_sum_inv[of c params caller]
    by (simp add: ResourceAllocationContract_execute_def split_beta)
qed

lemma run_calls_sum_inv:
  "sum_inv c \<Longrightarrow> integer_requests calls \<Longrightarrow> sum_inv (run_calls c calls)"
proof (induction calls arbitrary: c)
  case Nil
  then show ?case by simp
next
  case (Cons x calls)
  obtain fname params caller now where x: "x = (fname, params, caller, now)"
    by (cases x) auto
  from Cons.prems(2) x
  have v: "fname = ''request_resources'' \<longrightarrow> integer_params params"
    and rest: "integer_requests calls"
    by (simp_all add: integer_requests_def)
  from execute_sum_inv[OF Cons.prems(1) v, of caller now] rest show ?case
    unfolding x by (simp add: Cons.IH)
qed

lemma request_resources_inv:
  assumes inv: "resources_inv c" and ints: "integer_params params"
      and nn: "ResourceAllocationContract_validate params"
  shows "resources_inv (snd (request_resources c params caller now))"
proof (cases "py_gt (py_add (cpu (used c)) (get_or_zero (p_cpu params))) (total_cpu (limits c)) \<or>
      py_gt (py_add (memory (used c)) (get_or_zero (p_memory params))) (total_memory (limits c)) \<or>
      py_gt (py_add (storage (used c)) (get_or_zero (p_storage params)))
        (total_storage (limits c))")
  case True
  then show ?thesis using inv by (simp add: request_resources_rejected)
next
  case False
  note r = request_resources_admitted[OF False, of caller now]
  from inv have si: "sum_inv c"
    by (simp add: resources_inv_def sum_inv_def allocations_ok_def)
  have si': "sum_inv (snd (request_resources c params caller now))"
    using si ints by (rule request_resources_sum_inv)
  from inv have d: "distinct (map fst (allocations c))"
    and na: "list_all (\<lambda>(k, a). 0 \<le> val (cpu a) \<and> 0 \<le> val (memory a) \<and> 0 \<le> val (storage a))
               (allocations c)"
    and iu: "is_py_int (cpu (used c))" "is_py_int (memory (used c))" "is_py_int (storage (used c))"
    and ia: "list_all (\<lambda>(k, a). is_py_int (cpu a) \<and> is_py_int (memory a) \<and> is_py_int (storage a))
               (allocations c)"
    and su: "used_is_sum c" and wl: "within_limits c"
    by (simp_all add: resources_inv_def allocations_ok_def integers_only_def)
  from ints have ip: "is_py_int (get_or_zero (p_cpu params))"
    "is_py_int (get_or_zero (p_memory params))" "is_py_int (get_or_zero (p_storage params))"
    by (simp_all add: integer_params_def)
  from nn have v: "0 \<le> val (get_or_zero (p_cpu params))"
    "0 \<le> val (get_or_zero (p_memory params))" "0 \<le> val (get_or_zero (p_storage params))"
    by (simp_all add: ResourceAllocationContract_validate_def)
  from False iu ip have le:
    "val (cpu (used c)) + val (get_or_zero (p_cpu params)) \<le> val (total_cpu (limits c))"
    "val (memory (used c)) + val (get_or_zero (p_memory params)) \<le> val (total_memory (limits c))"
    "val (storage (used c)) + val (get_or_zero (p_storage params))
       \<le> val (total_storage (limits c))"
    by (simp_all add: py_gt_def py_add_int not_less)
  have ok: "allocations_ok (snd (request_resources c params caller now))"
    unfolding r using d na v by (simp add: allocations_ok_def list_all_update distinct_update)
  have wl': "within_limits (snd (request_resources c params caller now))"
  proof (cases "map_of (allocations c) caller")
    case None
    show ?thesis
      unfolding r using None wl le v iu ip
      by (simp add: within_limits_def py_add_int)
  next
    case (Some old)
    have io: "is_py_int (cpu old)" "is_py_int (memory old)" "is_py_int (storage old)"
      using list_all_lookup[OF ia Some] by simp_all
    have o: "0 \<le> val (cpu old)" "0 \<le> val (memory old)" "0 \<le> val (storage old)"
      using list_all_lookup[OF na Some] by simp_all
    have ols: "val (cpu old) \<le> sum_list (map (\<lambda>(k, a). val (cpu a)) (allocations c))"
      "val (memory old) \<le> sum_list (map (\<lambda>(k, a). val (memory a)) (allocations c))"
      "val (storage old) \<le> sum_list (map (\<lambda>(k, a). val (storage a)) (allocations c))"
      using nonneg_split[OF na] Some
      by (auto intro: lookup_le_sum[where f = "\<lambda>a. val (cpu a)"]
            lookup_le_sum[where f = "\<lambda>a. val (memory a)"]
            lookup_le_sum[where f = "\<lambda>a. val (storage a)"])
    show ?thesis
      unfolding r using Some wl le v iu ip io o ols su
      by (simp add: within_limits_def used_is_sum_def py_add_int py_sub_int)
  qed
  from ok si' wl' show ?thesis by (simp add: resources_inv_def sum_inv_def)
qed

lemma release_resources_inv:
  assumes inv: "resources_inv c"
  shows "resources_inv (snd (release_resources c params caller))"
proof (cases "map_of (allocations c) caller")
  case None
  with inv show ?thesis by (simp add: release_resources_def)
next
  case (Some old)
  from inv have si: "sum_inv c"
    by (simp add: resources_inv_def sum_inv_def allocations_ok_def)
  have si': "sum_inv (snd (release_resources c params caller))"
    using si by (rule release_resources_sum_inv)
  from inv have d: "distinct (map fst (allocations c))"
    and na: "list_all (\<lambda>(k, a). 0 \<le> val (cpu a) \<and> 0 \<le> val (memory a) \<and> 0 \<le> val (storage a))
               (allocations c)"
    and iu: "is_py_int (cpu (used c))" "is_py_int (memory (used c))" "is_py_int (storage (used c))"
    and ia: "list_all (\<lambda>(k, a). is_py_int (cpu a) \<and> is_py_int (memory a) \<and> is_py_int (storage a))
               (allocations c)"
    and wl: "within_limits c"
    by (simp_all add: resources_inv_def allocations_ok_def integers_only_def)
  have io: "is_py_int (cpu old)" "is_py_int (memory old)" "is_py_int (storage old)"
    using list_all_lookup[OF ia Some] by simp_all
  have o: "0 \<le> val (cpu old)" "0 \<le> val (memory old)" "0 \<le> val (storage old)"
    using list_all_lookup[OF na Some] by simp_all
  let ?c' = "snd (release_resources c params caller)"
  have al: "allocations ?c' = AList.delete caller (allocations c)"
    and lim: "limits ?c' = limits c"
    and us: "val (cpu (used ?c')) = val (cpu (used c)) - val (cpu old)"
      "val (memory (used ?c')) = val (memory (used c)) - val (memory old)"
      "val (storage (used ?c')) = val (storage (used c)) - val (storage old)"
    using Some iu io by (simp_all add: release_resources_def py_sub_int)
  have na': "list_all (\<lambda>(k, a). 0 \<le> val (cpu a) \<and> 0 \<le> val (memory a) \<and> 0 \<le> val (storage a))
               (allocations ?c')"
    unfolding al using na by (rule list_all_delete)
  have ok: "allocations_ok ?c'"
    using na' d by (simp add: allocations_ok_def al distinct_delete)
  from si' have su': "used_is_sum ?c'" by (simp add: sum_inv_def)
  have s0: "0 \<le> sum_list (map (\<lambda>(k, a). val (cpu a)) (allocations ?c'))"
    "0 \<le> sum_list (map (\<lambda>(k, a). val (memory a)) (allocations ?c'))"
    "0 \<le> sum_list (map (\<lambda>(k, a). val (storage a)) (allocations ?c'))"
    using nonneg_split[OF na']
    by (auto intro: sum_nonneg_allocs[where f = "\<lambda>a. val (cpu a)"]
          sum_nonneg_allocs[where f = "\<lambda>a. val (memory a)"]
          sum_nonneg_allocs[where f = "\<lambda>a. val (storage a)"])
  have wl': "within_limits ?c'"
    using su' s0 wl o us by (simp add: within_limits_def used_is_sum_def lim)
  from ok si' wl' show ?thesis by (simp add: resources_inv_def sum_inv_def)
qed

lemma execute_inv:
  assumes "resources_inv c"
      and "function = ''request_resources'' \<longrightarrow>
             integer_params params \<and> ResourceAllocationContract_validate params"
  shows "resources_inv
     (case ResourceAllocationContract_execute c function params caller now of
        Inl e \<Rightarrow> c | Inr (r, c') \<Rightarrow> c')"
proof -
  have "resources_inv (snd (get_allocation c params))"
    using assms(1) by (simp add: get_allocation_def split: option.splits)
  moreover have "resources_inv (snd (get_usage c))"
    using assms(1) by (simp add: get_usage_def)
  ultimately show ?thesis
    using assms request_resources_inv[of c params caller now]
      release_resources_inv[of c params caller]
    by (simp add: ResourceAllocationContract_execute_def split_beta)
qed

lemma run_calls_inv:
  "resources_inv c \<Longrightarrow> integer_requests calls \<Longrightarrow> nonneg_requests calls \<Longrightarrow>
   resources_inv (run_calls c calls)"
proof (induction calls arbitrary: c)
  case Nil
  then show ?case by simp
next
  case (Cons x calls)
  obtain fname params caller now where x: "x = (fname, params, caller, now)"
    by (cases x) auto
  from Cons.prems(2,3) x
  have v: "fname = ''request_resources'' \<longrightarrow>
             integer_params params \<and> ResourceAllocationContract_validate params"
    and rest: "integer_requests calls" "nonneg_requests calls"
    by (simp_all add: integer_requests_def nonneg_requests_def)
  from execute_inv[OF Cons.prems(1) v, of caller now] rest show ?case
    unfolding x by (simp add: Cons.IH)
qed

lemma resources_inv_init: "resources_inv (ResourceAllocationContract_init cid own now)"
  by (simp add: resources_inv_def allocations_ok_def integers_only_def used_is_sum_def
      within_limits_def ResourceAllocationContract_init_def)

text \<open>
  C9, as amended. After any sequence of \<open>execute\<close> calls on a new resource contract in which
  every \<open>request_resources\<close> call passes integers (a quantity left out counts as 0),
  \<open>used\<close> is in each dimension the sum over the entries of \<open>allocations\<close>; and when these
  integers are nonnegative, \<open>used\<close> lies between 0 and the limit in each dimension.
\<close>

theorem resource_usage_invariant:
  assumes "integer_requests calls"
  shows "used_is_sum (run_calls (ResourceAllocationContract_init cid own t0) calls)
       \<and> (nonneg_requests calls \<longrightarrow>
            within_limits (run_calls (ResourceAllocationContract_init cid own t0) calls))"
proof -
  have "sum_inv (ResourceAllocationContract_init cid own t0)"
    using resources_inv_init[of cid own t0]
    by (simp add: resources_inv_def sum_inv_def allocations_ok_def)
  then have "sum_inv (run_calls (ResourceAllocationContract_init cid own t0) calls)"
    using assms by (rule run_calls_sum_inv)
  moreover have "within_limits (run_calls (ResourceAllocationContract_init cid own t0) calls)"
    if "nonneg_requests calls"
    using run_calls_inv[OF resources_inv_init assms that] by (simp add: resources_inv_def)
  ultimately show ?thesis by (simp add: sum_inv_def)
qed

text \<open>Four float operations, each rounded: \<open>0 + 0.1\<close>, \<open>0.1 + 0.4\<close>, \<open>0.5 - 0.4\<close> and the last \<open>- 0.1\<close>.\<close>

lemma fl1: "py_add (PyInt 0) (PyFloat 3602879701896397 (-55)) = PyFloat 3602879701896397 (-55)"
  by (simp add: float_add_def round_to_53_def bitlen_nat.simps Let_def)

lemma fl2: "py_add (PyFloat 3602879701896397 (-55)) (PyFloat 3602879701896397 (-53))
    = PyFloat 4503599627370496 (-53)"
  by (simp add: float_add_def round_to_53_def bitlen_nat.simps Let_def)

lemma fl3: "py_sub (PyFloat 4503599627370496 (-53)) (PyFloat 3602879701896397 (-53))
    = PyFloat 900719925474099 (-53)"
  by (simp add: float_sub_def round_to_53_def bitlen_nat.simps Let_def)

lemma fl4: "py_sub (PyFloat 900719925474099 (-53)) (PyFloat 3602879701896397 (-55))
    = PyFloat (-1) (-55)"
  by (simp add: float_sub_def round_to_53_def bitlen_nat.simps Let_def)


text \<open>The calls of \<^verbatim>\<open>test_resource_allocation\<close>.\<close>

theorem resource_usage_invariant_witness:
  "integer_requests
     [(''request_resources'',
       \<lparr>p_cpu = Some (PyInt 50), p_memory = Some (PyInt 1024), p_storage = Some (PyInt 5120),
        p_instance_id = None\<rparr>,
       ''Instance-001'', 1000),
      (''request_resources'',
       \<lparr>p_cpu = Some (PyInt 100), p_memory = Some (PyInt 2048), p_storage = Some (PyInt 10240),
        p_instance_id = None\<rparr>,
       ''Instance-002'', 2000),
      (''request_resources'',
       \<lparr>p_cpu = Some (PyInt 300), p_memory = Some (PyInt 8192), p_storage = Some (PyInt 51200),
        p_instance_id = None\<rparr>,
       ''Instance-003'', 3000),
      (''release_resources'',
       \<lparr>p_cpu = None, p_memory = None, p_storage = None, p_instance_id = None\<rparr>,
       ''Instance-001'', 4000),
      (''get_usage'',
       \<lparr>p_cpu = None, p_memory = None, p_storage = None, p_instance_id = None\<rparr>,
       ''Instance-001'', 5000)]
   \<and> nonneg_requests
     [(''request_resources'',
       \<lparr>p_cpu = Some (PyInt 50), p_memory = Some (PyInt 1024), p_storage = Some (PyInt 5120),
        p_instance_id = None\<rparr>,
       ''Instance-001'', 1000),
      (''request_resources'',
       \<lparr>p_cpu = Some (PyInt 100), p_memory = Some (PyInt 2048), p_storage = Some (PyInt 10240),
        p_instance_id = None\<rparr>,
       ''Instance-002'', 2000),
      (''request_resources'',
       \<lparr>p_cpu = Some (PyInt 300), p_memory = Some (PyInt 8192), p_storage = Some (PyInt 51200),
        p_instance_id = None\<rparr>,
       ''Instance-003'', 3000),
      (''release_resources'',
       \<lparr>p_cpu = None, p_memory = None, p_storage = None, p_instance_id = None\<rparr>,
       ''Instance-001'', 4000),
      (''get_usage'',
       \<lparr>p_cpu = None, p_memory = None, p_storage = None, p_instance_id = None\<rparr>,
       ''Instance-001'', 5000)]
   \<and> used_is_sum (run_calls (ResourceAllocationContract_init ''resource-contract-1'' ''TEST-001'' 0)
     [(''request_resources'',
       \<lparr>p_cpu = Some (PyInt 50), p_memory = Some (PyInt 1024), p_storage = Some (PyInt 5120),
        p_instance_id = None\<rparr>,
       ''Instance-001'', 1000),
      (''request_resources'',
       \<lparr>p_cpu = Some (PyInt 100), p_memory = Some (PyInt 2048), p_storage = Some (PyInt 10240),
        p_instance_id = None\<rparr>,
       ''Instance-002'', 2000),
      (''request_resources'',
       \<lparr>p_cpu = Some (PyInt 300), p_memory = Some (PyInt 8192), p_storage = Some (PyInt 51200),
        p_instance_id = None\<rparr>,
       ''Instance-003'', 3000),
      (''release_resources'',
       \<lparr>p_cpu = None, p_memory = None, p_storage = None, p_instance_id = None\<rparr>,
       ''Instance-001'', 4000),
      (''get_usage'',
       \<lparr>p_cpu = None, p_memory = None, p_storage = None, p_instance_id = None\<rparr>,
       ''Instance-001'', 5000)])
   \<and> within_limits (run_calls (ResourceAllocationContract_init ''resource-contract-1'' ''TEST-001'' 0)
     [(''request_resources'',
       \<lparr>p_cpu = Some (PyInt 50), p_memory = Some (PyInt 1024), p_storage = Some (PyInt 5120),
        p_instance_id = None\<rparr>,
       ''Instance-001'', 1000),
      (''request_resources'',
       \<lparr>p_cpu = Some (PyInt 100), p_memory = Some (PyInt 2048), p_storage = Some (PyInt 10240),
        p_instance_id = None\<rparr>,
       ''Instance-002'', 2000),
      (''request_resources'',
       \<lparr>p_cpu = Some (PyInt 300), p_memory = Some (PyInt 8192), p_storage = Some (PyInt 51200),
        p_instance_id = None\<rparr>,
       ''Instance-003'', 3000),
      (''release_resources'',
       \<lparr>p_cpu = None, p_memory = None, p_storage = None, p_instance_id = None\<rparr>,
       ''Instance-001'', 4000),
      (''get_usage'',
       \<lparr>p_cpu = None, p_memory = None, p_storage = None, p_instance_id = None\<rparr>,
       ''Instance-001'', 5000)])
   \<and> used (run_calls (ResourceAllocationContract_init ''resource-contract-1'' ''TEST-001'' 0)
     [(''request_resources'',
       \<lparr>p_cpu = Some (PyInt 50), p_memory = Some (PyInt 1024), p_storage = Some (PyInt 5120),
        p_instance_id = None\<rparr>,
       ''Instance-001'', 1000),
      (''request_resources'',
       \<lparr>p_cpu = Some (PyInt 100), p_memory = Some (PyInt 2048), p_storage = Some (PyInt 10240),
        p_instance_id = None\<rparr>,
       ''Instance-002'', 2000),
      (''request_resources'',
       \<lparr>p_cpu = Some (PyInt 300), p_memory = Some (PyInt 8192), p_storage = Some (PyInt 51200),
        p_instance_id = None\<rparr>,
       ''Instance-003'', 3000),
      (''release_resources'',
       \<lparr>p_cpu = None, p_memory = None, p_storage = None, p_instance_id = None\<rparr>,
       ''Instance-001'', 4000),
      (''get_usage'',
       \<lparr>p_cpu = None, p_memory = None, p_storage = None, p_instance_id = None\<rparr>,
       ''Instance-001'', 5000)])
     = \<lparr>cpu = PyInt 100, memory = PyInt 2048, storage = PyInt 10240\<rparr>"
proof -
  let ?calls = "[(''request_resources'',
       \<lparr>p_cpu = Some (PyInt 50), p_memory = Some (PyInt 1024), p_storage = Some (PyInt 5120),
        p_instance_id = None\<rparr>,
       ''Instance-001'', 1000),
      (''request_resources'',
       \<lparr>p_cpu = Some (PyInt 100), p_memory = Some (PyInt 2048), p_storage = Some (PyInt 10240),
        p_instance_id = None\<rparr>,
       ''Instance-002'', 2000),
      (''request_resources'',
       \<lparr>p_cpu = Some (PyInt 300), p_memory = Some (PyInt 8192), p_storage = Some (PyInt 51200),
        p_instance_id = None\<rparr>,
       ''Instance-003'', 3000),
      (''release_resources'',
       \<lparr>p_cpu = None, p_memory = None, p_storage = None, p_instance_id = None\<rparr>,
       ''Instance-001'', 4000),
      (''get_usage'',
       \<lparr>p_cpu = None, p_memory = None, p_storage = None, p_instance_id = None\<rparr>,
       ''Instance-001'', 5000)] :: (string \<times> ResourceParams \<times> string \<times> int) list"
  let ?c0 = "(ResourceAllocationContract_init ''resource-contract-1'' ''TEST-001'' 0)"
  have ir: "integer_requests ?calls"
    by (simp add: integer_requests_def integer_params_def get_or_zero_def)
  have nn: "nonneg_requests ?calls"
    by (simp add: nonneg_requests_def ResourceAllocationContract_validate_def get_or_zero_def)
  have u: "used (run_calls ?c0 ?calls)
      = \<lparr>cpu = PyInt 100, memory = PyInt 2048, storage = PyInt 10240\<rparr>"
    by (simp add: ResourceAllocationContract_execute_def request_resources_def
        release_resources_def get_usage_def ResourceAllocationContract_init_def
        get_or_zero_def py_gt_def Let_def)
  show ?thesis
    using ir nn u
      resource_usage_invariant[OF ir, of "''resource-contract-1''" "''TEST-001''" 0]
    by blast
qed

text \<open>
  C9 as stated fails on floats, which \<^verbatim>\<open>validate\<close> and \<^verbatim>\<open>_request_resources\<close> take as they
  take integers. Two callers request \<open>0.1\<close> and \<open>0.4\<close> CPU units (the floats
  \<open>3602879701896397 / 2^55\<close> and \<open>3602879701896397 / 2^53\<close>), both nonnegative and both
  admitted; \<open>used\<close> is then the float \<open>0.5\<close>. The second caller releases: \<open>0.5 - 0.4\<close> is
  \<open>900719925474099 / 2^53\<close>, which is not the \<open>0.1\<close> of the one allocation left. The first
  caller releases: \<open>used\<close> is \<open>- 1 / 2^55\<close>, below 0, with no allocation left.
\<close>

theorem resource_usage_float_counterexample:
  "nonneg_requests
     [(''request_resources'',
       \<lparr>p_cpu = Some (PyFloat 3602879701896397 (- 55)), p_memory = None, p_storage = None,
        p_instance_id = None\<rparr>,
       ''Instance-001'', 1000),
      (''request_resources'',
       \<lparr>p_cpu = Some (PyFloat 3602879701896397 (- 53)), p_memory = None, p_storage = None,
        p_instance_id = None\<rparr>,
       ''Instance-002'', 2000),
      (''release_resources'',
       \<lparr>p_cpu = None, p_memory = None, p_storage = None, p_instance_id = None\<rparr>,
       ''Instance-002'', 3000),
      (''release_resources'',
       \<lparr>p_cpu = None, p_memory = None, p_storage = None, p_instance_id = None\<rparr>,
       ''Instance-001'', 4000)]
   \<and> map (\<lambda>(k, a). val (cpu a)) (allocations (run_calls (ResourceAllocationContract_init ''resource-contract-1'' ''TEST-001'' 0)
     [(''request_resources'',
       \<lparr>p_cpu = Some (PyFloat 3602879701896397 (- 55)), p_memory = None, p_storage = None,
        p_instance_id = None\<rparr>,
       ''Instance-001'', 1000),
      (''request_resources'',
       \<lparr>p_cpu = Some (PyFloat 3602879701896397 (- 53)), p_memory = None, p_storage = None,
        p_instance_id = None\<rparr>,
       ''Instance-002'', 2000),
      (''release_resources'',
       \<lparr>p_cpu = None, p_memory = None, p_storage = None, p_instance_id = None\<rparr>,
       ''Instance-002'', 3000)]))
     = [3602879701896397 / 36028797018963968]
   \<and> val (cpu (used (run_calls (ResourceAllocationContract_init ''resource-contract-1'' ''TEST-001'' 0)
     [(''request_resources'',
       \<lparr>p_cpu = Some (PyFloat 3602879701896397 (- 55)), p_memory = None, p_storage = None,
        p_instance_id = None\<rparr>,
       ''Instance-001'', 1000),
      (''request_resources'',
       \<lparr>p_cpu = Some (PyFloat 3602879701896397 (- 53)), p_memory = None, p_storage = None,
        p_instance_id = None\<rparr>,
       ''Instance-002'', 2000),
      (''release_resources'',
       \<lparr>p_cpu = None, p_memory = None, p_storage = None, p_instance_id = None\<rparr>,
       ''Instance-002'', 3000)])))
     = 900719925474099 / 9007199254740992
   \<and> \<not> used_is_sum (run_calls (ResourceAllocationContract_init ''resource-contract-1'' ''TEST-001'' 0)
     [(''request_resources'',
       \<lparr>p_cpu = Some (PyFloat 3602879701896397 (- 55)), p_memory = None, p_storage = None,
        p_instance_id = None\<rparr>,
       ''Instance-001'', 1000),
      (''request_resources'',
       \<lparr>p_cpu = Some (PyFloat 3602879701896397 (- 53)), p_memory = None, p_storage = None,
        p_instance_id = None\<rparr>,
       ''Instance-002'', 2000),
      (''release_resources'',
       \<lparr>p_cpu = None, p_memory = None, p_storage = None, p_instance_id = None\<rparr>,
       ''Instance-002'', 3000)])
   \<and> val (cpu (used (run_calls (ResourceAllocationContract_init ''resource-contract-1'' ''TEST-001'' 0)
     [(''request_resources'',
       \<lparr>p_cpu = Some (PyFloat 3602879701896397 (- 55)), p_memory = None, p_storage = None,
        p_instance_id = None\<rparr>,
       ''Instance-001'', 1000),
      (''request_resources'',
       \<lparr>p_cpu = Some (PyFloat 3602879701896397 (- 53)), p_memory = None, p_storage = None,
        p_instance_id = None\<rparr>,
       ''Instance-002'', 2000),
      (''release_resources'',
       \<lparr>p_cpu = None, p_memory = None, p_storage = None, p_instance_id = None\<rparr>,
       ''Instance-002'', 3000),
      (''release_resources'',
       \<lparr>p_cpu = None, p_memory = None, p_storage = None, p_instance_id = None\<rparr>,
       ''Instance-001'', 4000)])))
     = - 1 / 36028797018963968
   \<and> \<not> within_limits (run_calls (ResourceAllocationContract_init ''resource-contract-1'' ''TEST-001'' 0)
     [(''request_resources'',
       \<lparr>p_cpu = Some (PyFloat 3602879701896397 (- 55)), p_memory = None, p_storage = None,
        p_instance_id = None\<rparr>,
       ''Instance-001'', 1000),
      (''request_resources'',
       \<lparr>p_cpu = Some (PyFloat 3602879701896397 (- 53)), p_memory = None, p_storage = None,
        p_instance_id = None\<rparr>,
       ''Instance-002'', 2000),
      (''release_resources'',
       \<lparr>p_cpu = None, p_memory = None, p_storage = None, p_instance_id = None\<rparr>,
       ''Instance-002'', 3000),
      (''release_resources'',
       \<lparr>p_cpu = None, p_memory = None, p_storage = None, p_instance_id = None\<rparr>,
       ''Instance-001'', 4000)])"
proof -
  let ?f3 = "[(''request_resources'',
       \<lparr>p_cpu = Some (PyFloat 3602879701896397 (- 55)), p_memory = None, p_storage = None,
        p_instance_id = None\<rparr>,
       ''Instance-001'', 1000),
      (''request_resources'',
       \<lparr>p_cpu = Some (PyFloat 3602879701896397 (- 53)), p_memory = None, p_storage = None,
        p_instance_id = None\<rparr>,
       ''Instance-002'', 2000),
      (''release_resources'',
       \<lparr>p_cpu = None, p_memory = None, p_storage = None, p_instance_id = None\<rparr>,
       ''Instance-002'', 3000)] :: (string \<times> ResourceParams \<times> string \<times> int) list"
  let ?f4 = "[(''request_resources'',
       \<lparr>p_cpu = Some (PyFloat 3602879701896397 (- 55)), p_memory = None, p_storage = None,
        p_instance_id = None\<rparr>,
       ''Instance-001'', 1000),
      (''request_resources'',
       \<lparr>p_cpu = Some (PyFloat 3602879701896397 (- 53)), p_memory = None, p_storage = None,
        p_instance_id = None\<rparr>,
       ''Instance-002'', 2000),
      (''release_resources'',
       \<lparr>p_cpu = None, p_memory = None, p_storage = None, p_instance_id = None\<rparr>,
       ''Instance-002'', 3000),
      (''release_resources'',
       \<lparr>p_cpu = None, p_memory = None, p_storage = None, p_instance_id = None\<rparr>,
       ''Instance-001'', 4000)] :: (string \<times> ResourceParams \<times> string \<times> int) list"
  let ?c0 = "(ResourceAllocationContract_init ''resource-contract-1'' ''TEST-001'' 0)"
  let ?a = "\<lparr>cpu = PyFloat 3602879701896397 (- 55), memory = PyInt 0, storage = PyInt 0,
             allocated_at = 1000\<rparr>"
  have nn: "nonneg_requests ?f4"
    by (simp add: nonneg_requests_def ResourceAllocationContract_validate_def get_or_zero_def
        pow2_def)
  have lt1: "\<not> py_gt (PyFloat 3602879701896397 (- 55)) (PyInt 400)"
    and lt2: "\<not> py_gt (PyFloat 4503599627370496 (- 53)) (PyInt 400)"
    and lt3: "\<not> py_gt (PyInt 0) (PyInt 400)" "\<not> py_gt (PyInt 0) (PyInt 16384)"
      "\<not> py_gt (PyInt 0) (PyInt 102400)"
    by (simp_all add: py_gt_def pow2_def)
  have i0: "py_add (PyInt 0) (PyInt 0) = PyInt 0" "py_sub (PyInt 0) (PyInt 0) = PyInt 0"
    by simp_all
  note lt1 = lt1 lt3
  have c3: "run_calls ?c0 ?f3
      = ?c0\<lparr>allocations := [(''Instance-001'', ?a)],
             used := \<lparr>cpu = PyFloat 900719925474099 (- 53), memory = PyInt 0,
                      storage = PyInt 0\<rparr>\<rparr>"
    by (simp add: ResourceAllocationContract_execute_def request_resources_def
        release_resources_def ResourceAllocationContract_init_def get_or_zero_def Let_def
        fl1 fl2 fl3 lt1 lt2 i0 del: py_add.simps py_sub.simps)
  have c4: "run_calls ?c0 ?f4
      = ?c0\<lparr>allocations := [],
             used := \<lparr>cpu = PyFloat (- 1) (- 55), memory = PyInt 0, storage = PyInt 0\<rparr>\<rparr>"
    by (simp add: ResourceAllocationContract_execute_def request_resources_def
        release_resources_def ResourceAllocationContract_init_def get_or_zero_def Let_def
        fl1 fl2 fl3 fl4 lt1 lt2 i0 del: py_add.simps py_sub.simps)
  have v3: "val (PyFloat 900719925474099 (- 53)) = 900719925474099 / 9007199254740992"
    and va: "val (PyFloat 3602879701896397 (- 55)) = 3602879701896397 / 36028797018963968"
    and v4: "val (PyFloat (- 1) (- 55)) = - 1 / 36028797018963968"
    by (simp_all add: pow2_def)
  show ?thesis
    unfolding c3 c4 using nn
    by (simp add: used_is_sum_def within_limits_def v3 va v4 del: val.simps)
qed

text \<open>
  C3. The claim: a caller's old allocation is subtracted from \<open>used\<close> before the capacity
  check. In the code the check comes first, on \<open>used\<close> as it stands: a request is
  admitted exactly when \<open>used + new \<le> limit\<close> in every dimension, whether or not the
  caller holds an allocation that the request would replace.
\<close>

theorem request_resources_admission:
  "map_of (fst (request_resources c params caller now)) ''success''
     = Some (VBool
        (val (py_add (cpu (used c)) (get_or_zero (p_cpu params))) \<le> val (total_cpu (limits c)) \<and>
         val (py_add (memory (used c)) (get_or_zero (p_memory params)))
           \<le> val (total_memory (limits c)) \<and>
         val (py_add (storage (used c)) (get_or_zero (p_storage params)))
           \<le> val (total_storage (limits c))))"
  by (auto simp: request_resources_def Let_def py_gt_def)

text \<open>
  A caller that holds 300 of the 400 CPU units asks for the same allocation again: the
  request is rejected with 100 units reported available, and nothing changes.
\<close>

theorem request_resources_admission_witness:
  "request_resources
     (snd (request_resources
        (ResourceAllocationContract_init ''resource-contract-2'' ''TEST-001'' 0)
        \<lparr>p_cpu = Some (PyInt 300), p_memory = Some (PyInt 1024), p_storage = Some (PyInt 5120),
         p_instance_id = None\<rparr>
        ''Instance-001'' 1000))
     \<lparr>p_cpu = Some (PyInt 300), p_memory = Some (PyInt 1024), p_storage = Some (PyInt 5120),
      p_instance_id = None\<rparr>
     ''Instance-001'' 2000
   = ([(''success'', VBool False), (''error'', VStr ''Insufficient resources''),
       (''available'', VDict [(''cpu'', VNum (PyInt 100)), (''memory'', VNum (PyInt 15360)),
                              (''storage'', VNum (PyInt 97280))])],
      snd (request_resources
        (ResourceAllocationContract_init ''resource-contract-2'' ''TEST-001'' 0)
        \<lparr>p_cpu = Some (PyInt 300), p_memory = Some (PyInt 1024), p_storage = Some (PyInt 5120),
         p_instance_id = None\<rparr>
        ''Instance-001'' 1000))
   \<and> map_of (allocations (snd (request_resources
        (ResourceAllocationContract_init ''resource-contract-2'' ''TEST-001'' 0)
        \<lparr>p_cpu = Some (PyInt 300), p_memory = Some (PyInt 1024), p_storage = Some (PyInt 5120),
         p_instance_id = None\<rparr>
        ''Instance-001'' 1000))) ''Instance-001''
     = Some \<lparr>cpu = PyInt 300, memory = PyInt 1024, storage = PyInt 5120, allocated_at = 1000\<rparr>
   \<and> used (snd (request_resources
        (ResourceAllocationContract_init ''resource-contract-2'' ''TEST-001'' 0)
        \<lparr>p_cpu = Some (PyInt 300), p_memory = Some (PyInt 1024), p_storage = Some (PyInt 5120),
         p_instance_id = None\<rparr>
        ''Instance-001'' 1000))
     = \<lparr>cpu = PyInt 300, memory = PyInt 1024, storage = PyInt 5120\<rparr>"
proof -
  let ?p = "\<lparr>p_cpu = Some (PyInt 300), p_memory = Some (PyInt 1024),
             p_storage = Some (PyInt 5120), p_instance_id = None\<rparr>"
  let ?c0 = "ResourceAllocationContract_init ''resource-contract-2'' ''TEST-001'' 0"
  let ?c1 = "snd (request_resources ?c0 ?p ''Instance-001'' 1000)"
  have c1: "?c1 = ?c0\<lparr>allocations := [(''Instance-001'',
                 \<lparr>cpu = PyInt 300, memory = PyInt 1024, storage = PyInt 5120,
                  allocated_at = 1000\<rparr>)],
               used := \<lparr>cpu = PyInt 300, memory = PyInt 1024, storage = PyInt 5120\<rparr>\<rparr>"
    by (simp add: request_resources_def ResourceAllocationContract_init_def
        get_or_zero_def py_gt_def Let_def)
  have s: "map_of (fst (request_resources ?c1 ?p ''Instance-001'' 2000)) ''success''
      = Some (VBool False)"
    using request_resources_admission[of ?c1 ?p "''Instance-001''" 2000]
    unfolding c1 by (simp add: ResourceAllocationContract_init_def get_or_zero_def)
  have r: "request_resources ?c1 ?p ''Instance-001'' 2000
      = ([(''success'', VBool False), (''error'', VStr ''Insufficient resources''),
          (''available'', VDict [(''cpu'', VNum (PyInt 100)), (''memory'', VNum (PyInt 15360)),
                                 (''storage'', VNum (PyInt 97280))])], ?c1)"
    using s unfolding c1
    by (simp add: request_resources_def ResourceAllocationContract_init_def
        get_or_zero_def py_gt_def Let_def available_val_def)
  show ?thesis
    using r by (simp add: c1)
qed

end
